theory Spec2Isabelle
  imports
    Complex_Main
    "HOL-Library.Word"
    "HOL-Library.Multiset"
    "HOL-Library.Char_ord"
    "HOL-Library.Option_ord"
    "HOL-Library.List_Lexorder"
    "HOL-Library.Product_Lexorder"
begin

unbundle bit_operations_syntax

section \<open>The PMT decoder tool (icaruscode/Decode/DecoderTools/PMTDecoder\_tool.cc)\<close>

text \<open>
  A shallow embedding of \<^verbatim>\<open>daq::PMTDecoder\<close>: the merge of board setup and PMT
  configuration into the board information database
  (\<^verbatim>\<open>matchBoardConfigurationAndSetup\<close>), the decoding of one CAEN V1730 fragment
  (\<^verbatim>\<open>process_fragment\<close>, \<^verbatim>\<open>fetchNeededBoardInfo\<close>) and the hand-over of the waveforms
  (\<^verbatim>\<open>outputDataProducts\<close>).

  Conventions.
  \<^item> \<^verbatim>\<open>unsigned int\<close> and \<^verbatim>\<open>uint32_t\<close> are \<open>32 word\<close>, \<^verbatim>\<open>uint16_t\<close> is \<open>16 word\<close>;
    \<^verbatim>\<open>size_t\<close> products of two 32-bit values cannot wrap in 64 bits and are \<open>nat\<close>.
  \<^item> Times and durations (\<^verbatim>\<open>nanoseconds\<close>, \<^verbatim>\<open>electronics_time\<close>, \<^verbatim>\<open>float\<close>) are exact
    numbers of type \<open>real\<close>, all in nanoseconds. The source computes in IEEE double
    precision and keeps an \<^verbatim>\<open>electronics_time\<close> in microseconds; neither the rounding nor
    the change of unit is modelled, so no property of this file is about the digits of a
    time stamp.
  \<^item> A pointer that may be null is an \<open>option\<close>; a pointer into the vector
    \<^verbatim>\<open>PMTconfig->boards\<close> is the index of the element it points to.
  \<^item> Every \<^verbatim>\<open>throw\<close> is a value \<open>Inl e\<close>. So is every place where the C++ program has
    undefined behaviour (null dereference, division by zero, read past the payload)
    and every failing \<^verbatim>\<open>assert\<close>.
  \<^item> Of the message facility streams, \<^verbatim>\<open>LogPrint\<close> (warning level) and \<^verbatim>\<open>LogError\<close> are
    recorded as a list of messages; \<^verbatim>\<open>LogInfo\<close>, \<^verbatim>\<open>LogDebug\<close>, \<^verbatim>\<open>LogTrace\<close> and
    \<^verbatim>\<open>LogVerbatim\<close> only print and are left out.
\<close>

subsection \<open>Data\<close>

type_synonym nanoseconds = real

text \<open>
  Modelled from the spec: \<^verbatim>\<open>details::BoardSetup_t\<close> is declared in
  \<^verbatim>\<open>PMTDecoderUtils.h\<close>, which is missing. The spec gives \<^verbatim>\<open>DeviceSetup\<close> as
  \<^verbatim>\<open>{name, fragmentID: optional<uint>, triggerDelay}\<close>; \<^verbatim>\<open>convert\<close> (below, from the
  source) shows that the optional is stored as an \<^verbatim>\<open>unsigned int\<close> with the reserved value
  \<^verbatim>\<open>NoFragmentID\<close> for "unset", taken here to be the largest \<^verbatim>\<open>unsigned int\<close>.
\<close>

record BoardSetup_t =
  setup_name :: string
  setup_fragmentID :: "32 word"
  triggerDelay :: nanoseconds

definition NoFragmentID :: "32 word" where
  "NoFragmentID = - 1"

definition hasFragmentID :: "BoardSetup_t \<Rightarrow> bool" where
  "hasFragmentID s = (setup_fragmentID s \<noteq> NoFragmentID)"

text \<open>\<^verbatim>\<open>convert(BoardSetupConfig)\<close>: the FHiCL table \<^verbatim>\<open>{Name, FragmentID?, TriggerDelay}\<close>.\<close>

definition convert :: "string \<times> 32 word option \<times> nanoseconds \<Rightarrow> BoardSetup_t" where
  "convert cfg = (case cfg of (Name, FragmentID, TriggerDelay) \<Rightarrow>
     \<lparr> setup_name = Name,
       setup_fragmentID = (case FragmentID of Some i \<Rightarrow> i | None \<Rightarrow> NoFragmentID),
       triggerDelay = TriggerDelay \<rparr>)"

text \<open>
  Modelled from the spec: \<^verbatim>\<open>sbn::V1730Configuration\<close> (sbnobj/Common/PMT/Data, missing);
  the fields the decoder reads, as the spec's \<^verbatim>\<open>DeviceConfig\<close> lists them.
\<close>

record V1730Configuration =
  boardName :: string
  cfg_fragmentID :: "32 word"
  bufferLength :: "32 word"
  postTriggerFrac :: real

text \<open>\<^verbatim>\<open>sbn::PMTconfiguration\<close>: its member \<^verbatim>\<open>boards\<close>.\<close>

type_synonym PMTconfiguration = "V1730Configuration list"

text \<open>
  Modelled from the spec: \<^verbatim>\<open>details::BoardFacts_t\<close> and
  \<^verbatim>\<open>details::BoardInfoLookup::BoardInfo_t\<close> (\<^verbatim>\<open>PMTDecoderUtils.h\<close>, missing), with the
  members the source initialises at lines 766-775: \<^verbatim>\<open>{fragmentID, setup, config, facts}\<close>.
\<close>

record BoardFacts_t =
  preTriggerTime :: nanoseconds

record BoardInfo_t =
  fragmentID :: "32 word"
  board_setup :: "BoardSetup_t option"
  board_config :: "V1730Configuration option"
  facts :: BoardFacts_t

text \<open>\<^verbatim>\<open>PMTDecoder::NeededBoardInfo_t\<close>.\<close>

record NeededBoardInfo_t =
  info_name :: string
  info_preTriggerTime :: nanoseconds
  PMTtriggerDelay :: nanoseconds

text \<open>\<^verbatim>\<open>raw::OpDetWaveform\<close>: time stamp, channel number and the samples.\<close>

record OpDetWaveform =
  TimeStamp :: real
  ChannelNumber :: "32 word"
  Waveform :: "16 word list"

text \<open>
  The artDAQ fragment as \<^verbatim>\<open>process_fragment\<close> reads it: \<^verbatim>\<open>fragmentID()\<close>, the metadata's
  \<^verbatim>\<open>nChannels\<close>, the event header's \<^verbatim>\<open>eventSize\<close> and \<^verbatim>\<open>triggerTimeTag\<close>, and the 16-bit
  samples that follow the event header (\<^verbatim>\<open>data_begin\<close>).
\<close>

record Fragment =
  frag_fragmentID :: "16 word"
  nChannels :: "32 word"
  eventSize :: "32 word"
  triggerTimeTag :: "32 word"
  payload :: "16 word list"

datatype message =
    NoConfigurationInformation string
      \<comment> \<open>LogPrint: "Board 'n' has no configuration information: some time stamp
          corrections will be skipped."\<close>
  | NoFragmentIDAssociation string
      \<comment> \<open>LogPrint: "Board 'n' can't be associated to a fragment ID: its time stamp
          corrections will be skipped."\<close>
  | NoChannelInformation "32 word"
      \<comment> \<open>LogError: "*** PMT could not find channel information for fragment: id"\<close>

datatype error =
    NoDAQConfiguration string
      \<comment> \<open>cet::exception: "No DAQ configuration found for PMT readout board 'n'"\<close>
  | FragmentIDMismatch string "32 word" "32 word"
      \<comment> \<open>cet::exception: "Board 'n' has fragment ID (config) but it is set up as (setup)!"\<close>
  | NoBoardInformation "32 word" bool
      \<comment> \<open>cet::exception: "Input fragment has ID id which has no associated board
          information"; the flag tells whether " + `.FragmentID`" is appended\<close>
  | NullDereference
      \<comment> \<open>undefined behaviour: \<^verbatim>\<open>->\<close> on a null pointer\<close>
  | DivisionByZero
      \<comment> \<open>undefined behaviour: integer division by zero\<close>
  | OutOfBoundsRead
      \<comment> \<open>undefined behaviour: \<^verbatim>\<open>copy_n\<close> past the end of the fragment's samples\<close>
  | AssertionFailed
      \<comment> \<open>a failing \<^verbatim>\<open>assert\<close>\<close>

text \<open>
  The tool object: its configuration parameters, the values it reads from the services
  (the optical tick, the trigger time, the channel map) and its two mutable members.
  The channel map service answers \<^verbatim>\<open>hasPMTDigitizerID\<close> and \<^verbatim>\<open>getChannelIDPairVec\<close>.
\<close>

record PMTDecoder =
  fDiagnosticOutput :: bool
  fRequireKnownBoards :: bool
  fRequireBoardConfig :: bool
  fPMTconfigTag :: "string option"
  fBoardSetup :: "BoardSetup_t list"
  fOpticalTick :: nanoseconds
  TriggerTime :: real
  fChannelMap :: "32 word \<rightharpoonup> (32 word \<times> 32 word) list"
  fOpDetWaveformCollection :: "OpDetWaveform list option"
  fBoardInfoLookup :: "BoardInfo_t list option"

definition hasPMTconfiguration :: "PMTDecoder \<Rightarrow> bool" where
  "hasPMTconfiguration d = (fPMTconfigTag d \<noteq> None)"

subsection \<open>Binary search (PMTDecoderUtils.h)\<close>

text \<open>
  Modelled from the spec: \<^verbatim>\<open>details::binarySearch\<close> is defined in the missing
  \<^verbatim>\<open>PMTDecoderUtils.h\<close>. The spec calls it a binary-search lookup by key over a sorted
  sequence; the source uses its result as a pointer to the element found, null when
  no element has the key. It is modelled as the bisection of \<^verbatim>\<open>std::lower_bound\<close>
  followed by the comparison of the key found.
\<close>

function lower_bound :: "('a \<Rightarrow> 'k::linorder) \<Rightarrow> 'a list \<Rightarrow> 'k \<Rightarrow> nat \<Rightarrow> nat \<Rightarrow> nat" where
  "lower_bound key xs k lo hi =
     (if lo < hi then
        (let mid = lo + (hi - lo) div 2 in
         if key (xs ! mid) < k then lower_bound key xs k (mid + 1) hi
         else lower_bound key xs k lo mid)
      else lo)"
  by pat_completeness auto
termination
  by (relation "measure (\<lambda>(key, xs, k, lo, hi). hi - lo)") auto

declare lower_bound.simps [simp del]

definition binarySearch :: "('a \<Rightarrow> 'k::linorder) \<Rightarrow> 'a list \<Rightarrow> 'k \<Rightarrow> 'a option" where
  "binarySearch key xs k =
     (let i = lower_bound key xs k 0 (length xs) in
      if i < length xs \<and> key (xs ! i) = k then Some (xs ! i) else None)"

subsection \<open>The board information database\<close>

text \<open>
  Modelled from the spec: \<^verbatim>\<open>details::BoardInfoLookup\<close> (\<^verbatim>\<open>PMTDecoderUtils.h\<close>, missing).
  Its constructor takes the records \<^verbatim>\<open>matchBoardConfigurationAndSetup\<close> collected. The
  spec says of the database that it is an "ordered sequence of DeviceRecord, sorted and
  deduplicated by fragmentID", that "fragmentID is unique across the database", and of
  its construction that "only the set of input entries affects the result"; \<^verbatim>\<open>find\<close> is a
  "logarithmic-time lookup over the sorted record sequence". So the constructor sorts
  the records by fragment ID and keeps one record of every fragment ID. The spec does
  not say which one; for the result to depend on the set of the records only, the
  records of one fragment ID are ordered by their other members (setup, configuration,
  facts) and the first is kept, as \<^verbatim>\<open>std::unique\<close> does.
\<close>

definition BoardInfo_key ::
  "BoardInfo_t \<Rightarrow> 32 word \<times> (string \<times> 32 word \<times> real) option
                  \<times> (string \<times> 32 word \<times> 32 word \<times> real) option \<times> real" where
  "BoardInfo_key b =
     (fragmentID b,
      map_option (\<lambda>s. (setup_name s, setup_fragmentID s, triggerDelay s)) (board_setup b),
      map_option (\<lambda>c. (boardName c, cfg_fragmentID c, bufferLength c, postTriggerFrac c))
        (board_config b),
      preTriggerTime (facts b))"

fun unique_fragmentID :: "BoardInfo_t list \<Rightarrow> BoardInfo_t list" where
  "unique_fragmentID (x # y # rest) =
     (if fragmentID x = fragmentID y then unique_fragmentID (x # rest)
      else x # unique_fragmentID (y # rest))"
| "unique_fragmentID xs = xs"

definition BoardInfoLookup :: "BoardInfo_t list \<Rightarrow> BoardInfo_t list" where
  "BoardInfoLookup database = unique_fragmentID (sort_key BoardInfo_key database)"

definition findBoardInfo :: "BoardInfo_t list \<Rightarrow> 32 word \<Rightarrow> BoardInfo_t option" where
  "findBoardInfo db fragment_id = binarySearch fragmentID db fragment_id"

subsection \<open>Merging board setup and PMT configuration\<close>

text \<open>
  \<^verbatim>\<open>configByName\<close> (lines 693-700): the pairs (board name, pointer to the board
  configuration), sorted with \<^verbatim>\<open>std::sort\<close> by name and then by pointer. A pointer into
  \<^verbatim>\<open>PMTconfig->boards\<close> is the index of the element; no two pairs are equal, so the sorted
  sequence is unique. A null \<^verbatim>\<open>PMTconfig\<close> leaves the vector empty.
\<close>

definition boards :: "PMTconfiguration option \<Rightarrow> V1730Configuration list" where
  "boards PMTconfig = (case PMTconfig of None \<Rightarrow> [] | Some bs \<Rightarrow> bs)"

definition configByName :: "PMTconfiguration option \<Rightarrow> (string \<times> nat) list" where
  "configByName PMTconfig =
     sort (zip (map boardName (boards PMTconfig)) [0 ..< length (boards PMTconfig)])"

text \<open>
  The lambda \<^verbatim>\<open>findPMTconfig\<close> (lines 703-714). When the search finds nothing and
  \<^verbatim>\<open>fRequireKnownBoards\<close> is false, the source goes on to \<^verbatim>\<open>ppBoardConfig->second\<close> with a
  null \<^verbatim>\<open>ppBoardConfig\<close>.
\<close>

definition findPMTconfig ::
  "PMTDecoder \<Rightarrow> PMTconfiguration option \<Rightarrow> string \<Rightarrow> error + V1730Configuration option" where
  "findPMTconfig d PMTconfig nm =
     (if \<not> hasPMTconfiguration d then Inr None
      else (case binarySearch fst (configByName PMTconfig) nm of
              None \<Rightarrow>
                if fRequireKnownBoards d then Inl (NoDAQConfiguration nm)
                else Inl NullDereference
            | Some ppBoardConfig \<Rightarrow> Inr (Some (boards PMTconfig ! snd ppBoardConfig))))"

text \<open>
  Lines 756-775: the record of one board. \<^verbatim>\<open>assert(fragmentID != NoFragmentID)\<close> is the
  only check.
\<close>

definition newBoardInfo ::
  "PMTDecoder \<Rightarrow> BoardSetup_t \<Rightarrow> V1730Configuration option \<Rightarrow> error + BoardInfo_t" where
  "newBoardInfo d boardSetup pBoardConfig =
     (let fragID = (case pBoardConfig of
                      Some c \<Rightarrow> cfg_fragmentID c
                    | None \<Rightarrow> setup_fragmentID boardSetup);
          preTrigger = (case pBoardConfig of
                          Some c \<Rightarrow>
                            (real (unat (bufferLength c)) * (1 - postTriggerFrac c))
                              * fOpticalTick d
                        | None \<Rightarrow> 0)
      in if fragID = NoFragmentID then Inl AssertionFailed
         else Inr \<lparr> fragmentID = fragID,
                    board_setup = Some boardSetup,
                    board_config = pBoardConfig,
                    facts = \<lparr> preTriggerTime = preTrigger \<rparr> \<rparr>)"

text \<open>
  The body of the loop over \<^verbatim>\<open>fBoardSetup\<close> (lines 720-776) for one entry: the records
  it appends to \<^verbatim>\<open>boardInfoByFragment\<close> (one or none) and the warnings it prints.
\<close>

definition matchBoard ::
  "PMTDecoder \<Rightarrow> PMTconfiguration option \<Rightarrow> BoardSetup_t
     \<Rightarrow> error + (BoardInfo_t list \<times> message list)" where
  "matchBoard d PMTconfig boardSetup =
     (case findPMTconfig d PMTconfig (setup_name boardSetup) of
        Inl e \<Rightarrow> Inl e
      | Inr (Some c) \<Rightarrow>
          if hasFragmentID boardSetup \<and> setup_fragmentID boardSetup \<noteq> cfg_fragmentID c
          then Inl (FragmentIDMismatch (setup_name boardSetup)
                      (cfg_fragmentID c) (setup_fragmentID boardSetup))
          else (case newBoardInfo d boardSetup (Some c) of
                  Inl e \<Rightarrow> Inl e
                | Inr b \<Rightarrow> Inr ([b], []))
      | Inr None \<Rightarrow>
          if hasFragmentID boardSetup
          then (case newBoardInfo d boardSetup None of
                  Inl e \<Rightarrow> Inl e
                | Inr b \<Rightarrow> Inr ([b], [NoConfigurationInformation (setup_name boardSetup)]))
          else Inr ([], [NoFragmentIDAssociation (setup_name boardSetup)]))"

text \<open>The loop: the first entry that fails ends it.\<close>

fun matchLoop ::
  "PMTDecoder \<Rightarrow> PMTconfiguration option \<Rightarrow> BoardSetup_t list
     \<Rightarrow> BoardInfo_t list \<times> message list \<Rightarrow> error + (BoardInfo_t list \<times> message list)" where
  "matchLoop d PMTconfig [] acc = Inr acc"
| "matchLoop d PMTconfig (boardSetup # rest) (boardInfoByFragment, lg) =
     (case matchBoard d PMTconfig boardSetup of
        Inl e \<Rightarrow> Inl e
      | Inr (new, msgs) \<Rightarrow>
          matchLoop d PMTconfig rest (boardInfoByFragment @ new, lg @ msgs))"

definition matchBoardConfigurationAndSetup ::
  "PMTDecoder \<Rightarrow> PMTconfiguration option \<Rightarrow> error + (BoardInfo_t list \<times> message list)" where
  "matchBoardConfigurationAndSetup d PMTconfig =
     (case matchLoop d PMTconfig (fBoardSetup d) ([], []) of
        Inl e \<Rightarrow> Inl e
      | Inr (boardInfoByFragment, lg) \<Rightarrow> Inr (BoardInfoLookup boardInfoByFragment, lg))"

definition UpdatePMTConfiguration ::
  "PMTDecoder \<Rightarrow> PMTconfiguration option \<Rightarrow> error + (PMTDecoder \<times> message list)" where
  "UpdatePMTConfiguration d PMTconfig =
     (case matchBoardConfigurationAndSetup d PMTconfig of
        Inl e \<Rightarrow> Inl e
      | Inr (lookup, lg) \<Rightarrow> Inr (d\<lparr> fBoardInfoLookup := Some lookup \<rparr>, lg))"

subsection \<open>Decoding a fragment\<close>

text \<open>\<^verbatim>\<open>std::to_string\<close> of an unsigned value: its decimal digits.\<close>

function to_string :: "nat \<Rightarrow> string" where
  "to_string n =
     (if n < 10 then [''0123456789'' ! n]
      else to_string (n div 10) @ [''0123456789'' ! (n mod 10)])"
  by pat_completeness auto
termination
  by (relation "measure (\<lambda>n. n)") auto

declare to_string.simps [simp del]

definition fetchNeededBoardInfo :: "BoardInfo_t option \<Rightarrow> 32 word \<Rightarrow> NeededBoardInfo_t" where
  "fetchNeededBoardInfo boardInfo fragID =
     \<lparr> info_name =
         (case boardInfo of
            Some b \<Rightarrow> (case board_config b of
                         Some c \<Rightarrow> boardName c
                       | None \<Rightarrow> ''<ID='' @ to_string (unat fragID))
          | None \<Rightarrow> ''<ID='' @ to_string (unat fragID)),
       info_preTriggerTime =
         (case boardInfo of Some b \<Rightarrow> preTriggerTime (facts b) | None \<Rightarrow> 0),
       PMTtriggerDelay =
         (case boardInfo of
            Some b \<Rightarrow> (case board_setup b of Some s \<Rightarrow> triggerDelay s | None \<Rightarrow> 0)
          | None \<Rightarrow> 0) \<rparr>"

text \<open>
  Lines 571-603 of \<^verbatim>\<open>process_fragment\<close> (the spec's \<^verbatim>\<open>reconstruct\<close>): the board
  information of the fragment and the time stamp of its waveforms. The two subtractions
  are exact here; the source makes them in double precision on the electronics time
  scale.
\<close>

definition boardTimeStamp :: "PMTDecoder \<Rightarrow> 32 word \<Rightarrow> error + (NeededBoardInfo_t \<times> real)" where
  "boardTimeStamp d fragment_id =
     (case fBoardInfoLookup d of
        None \<Rightarrow> Inl AssertionFailed
      | Some lookup \<Rightarrow>
          (case findBoardInfo lookup fragment_id of
             None \<Rightarrow>
               if fRequireKnownBoards d
               then Inl (NoBoardInformation fragment_id (\<not> hasPMTconfiguration d))
               else (let info = fetchNeededBoardInfo None fragment_id
                     in Inr (info, TriggerTime d - PMTtriggerDelay info - info_preTriggerTime info))
           | Some b \<Rightarrow>
               if fragmentID b \<noteq> fragment_id \<or> board_setup b = None then Inl AssertionFailed
               else (let info = fetchNeededBoardInfo (Some b) fragment_id
                     in Inr (info, TriggerTime d - PMTtriggerDelay info - info_preTriggerTime info))))"

text \<open>
  \<^verbatim>\<open>sizeof(sbndaq::CAENV1730EventHeader)/sizeof(uint32_t)\<close>: the event header of the board
  is four 32-bit words (the structure is declared by sbndaq-artdaq-core).
\<close>

definition evt_header_size_quad_bytes :: "32 word" where
  "evt_header_size_quad_bytes = 4"

definition data_size_double_bytes :: "Fragment \<Rightarrow> 32 word" where
  "data_size_double_bytes artdaqFragment =
     2 * (eventSize artdaqFragment - evt_header_size_quad_bytes)"

definition nSamplesPerChannel :: "Fragment \<Rightarrow> 32 word" where
  "nSamplesPerChannel artdaqFragment =
     data_size_double_bytes artdaqFragment div nChannels artdaqFragment"

text \<open>
  The loop over the channels of the board (lines 616-627): \<^verbatim>\<open>copy_n\<close> of
  \<^verbatim>\<open>nSamplesPerChannel\<close> samples from offset \<^verbatim>\<open>digitizerChannel * nSamplesPerChannel\<close>,
  then \<^verbatim>\<open>emplace_back\<close> into the collection.
\<close>

fun emitWaveforms ::
  "real \<Rightarrow> nat \<Rightarrow> 16 word list \<Rightarrow> (32 word \<times> 32 word) list
     \<Rightarrow> OpDetWaveform list option \<Rightarrow> error + OpDetWaveform list option" where
  "emitWaveforms timeStamp n data_begin [] coll = Inr coll"
| "emitWaveforms timeStamp n data_begin ((digitizerChannel, channelID) # rest) coll =
     (let ch_offset = unat digitizerChannel * n in
      if length data_begin < ch_offset + n then Inl OutOfBoundsRead
      else (case coll of
              None \<Rightarrow> Inl NullDereference
            | Some ws \<Rightarrow>
                emitWaveforms timeStamp n data_begin rest
                  (Some (ws @ [\<lparr> TimeStamp = timeStamp, ChannelNumber = channelID,
                                 Waveform = take n (drop ch_offset data_begin) \<rparr>]))))"

definition process_fragment ::
  "PMTDecoder \<Rightarrow> Fragment \<Rightarrow> error + (PMTDecoder \<times> message list)" where
  "process_fragment d artdaqFragment =
     (let fragment_id = (ucast (frag_fragmentID artdaqFragment) :: 32 word);
          eff_fragment_id = fragment_id AND 0x0fff
      in if nChannels artdaqFragment = 0 then Inl DivisionByZero
         else
           (case (case fChannelMap d eff_fragment_id of
                    Some digitizerChannelVec \<Rightarrow>
                      (case boardTimeStamp d fragment_id of
                         Inl e \<Rightarrow> Inl e
                       | Inr (info, timeStamp) \<Rightarrow>
                           (case emitWaveforms timeStamp
                                   (unat (nSamplesPerChannel artdaqFragment))
                                   (payload artdaqFragment) digitizerChannelVec
                                   (fOpDetWaveformCollection d) of
                              Inl e \<Rightarrow> Inl e
                            | Inr coll \<Rightarrow> Inr (coll, [])))
                  | None \<Rightarrow>
                      Inr (fOpDetWaveformCollection d, [NoChannelInformation fragment_id])) of
              Inl e \<Rightarrow> Inl e
            | Inr (coll, lg) \<Rightarrow>
                if fDiagnosticOutput d \<and> coll = None then Inl NullDereference
                else Inr (d\<lparr> fOpDetWaveformCollection := coll \<rparr>, lg)))"

subsection \<open>Handing the waveforms over\<close>

definition initializeDataProducts :: "PMTDecoder \<Rightarrow> PMTDecoder" where
  "initializeDataProducts d = d\<lparr> fOpDetWaveformCollection := Some [] \<rparr>"

text \<open>
  \<^verbatim>\<open>outputDataProducts\<close> sorts the collection with \<^verbatim>\<open>std::sort\<close> and the comparison
  \<^verbatim>\<open>left.ChannelNumber() < right.ChannelNumber()\<close>, then moves it into the event, which
  leaves the member null. \<^verbatim>\<open>std::sort\<close> is a parameter of the model: the C++ standard
  promises a permutation of the input that is ordered by the comparison, and leaves the
  order of equivalent elements open (\<^verbatim>\<open>std::stable_sort\<close> is the one that keeps it). The
  sort of the GNU C++ library is modelled below.
\<close>

definition channel_less :: "OpDetWaveform \<Rightarrow> OpDetWaveform \<Rightarrow> bool" where
  "channel_less left right = (ChannelNumber left < ChannelNumber right)"

definition is_std_sort ::
  "(('a \<Rightarrow> 'a \<Rightarrow> bool) \<Rightarrow> 'a list \<Rightarrow> 'a list) \<Rightarrow> ('a \<Rightarrow> 'a \<Rightarrow> bool) \<Rightarrow> bool" where
  "is_std_sort std_sort cmp =
     (\<forall>xs. mset (std_sort cmp xs) = mset xs
           \<and> sorted_wrt (\<lambda>a b. \<not> cmp b a) (std_sort cmp xs))"

definition outputDataProducts ::
  "((OpDetWaveform \<Rightarrow> OpDetWaveform \<Rightarrow> bool) \<Rightarrow> OpDetWaveform list \<Rightarrow> OpDetWaveform list)
     \<Rightarrow> PMTDecoder \<Rightarrow> error + (OpDetWaveform list \<times> PMTDecoder)" where
  "outputDataProducts std_sort d =
     (case fOpDetWaveformCollection d of
        None \<Rightarrow> Inl NullDereference
      | Some ws \<Rightarrow> Inr (std_sort channel_less ws, d\<lparr> fOpDetWaveformCollection := None \<rparr>))"

subsection \<open>The sort of the GNU C++ library\<close>

text \<open>
  \<^verbatim>\<open>std::sort\<close> as the GNU C++ library (libstdc++, \<^verbatim>\<open>bits/stl_algo.h\<close>) implements it:
  introsort, that is quicksort with the median of three as pivot down to ranges of 16
  elements, and one insertion sort over the whole array at the end. The array is a
  list, an iterator a position in it.
\<close>

text \<open>\<^verbatim>\<open>std::iter_swap\<close> on positions of the array.\<close>

definition iter_swap :: "'a list \<Rightarrow> nat \<Rightarrow> nat \<Rightarrow> 'a list" where
  "iter_swap xs a b = xs[a := xs ! b, b := xs ! a]"

definition move_median_to_first ::
  "('a \<Rightarrow> 'a \<Rightarrow> bool) \<Rightarrow> 'a list \<Rightarrow> nat \<Rightarrow> nat \<Rightarrow> nat \<Rightarrow> nat \<Rightarrow> 'a list" where
  "move_median_to_first cmp xs result a b c =
     (if cmp (xs ! a) (xs ! b) then
        (if cmp (xs ! b) (xs ! c) then iter_swap xs result b
         else if cmp (xs ! a) (xs ! c) then iter_swap xs result c
         else iter_swap xs result a)
      else if cmp (xs ! a) (xs ! c) then iter_swap xs result a
      else if cmp (xs ! b) (xs ! c) then iter_swap xs result c
      else iter_swap xs result b)"

text \<open>
  The two inner loops of \<^verbatim>\<open>__unguarded_partition\<close>: \<^verbatim>\<open>while (comp(first, pivot)) ++first\<close> and
  \<^verbatim>\<open>while (comp(pivot, last)) --last\<close>. The library makes no check of the bounds (the
  median at the pivot stops both loops); the model stops at the ends of the array.
\<close>

function partition_up :: "('a \<Rightarrow> 'a \<Rightarrow> bool) \<Rightarrow> 'a list \<Rightarrow> nat \<Rightarrow> nat \<Rightarrow> nat" where
  "partition_up cmp xs pivot first =
     (if first < length xs \<and> cmp (xs ! first) (xs ! pivot)
      then partition_up cmp xs pivot (first + 1) else first)"
  by pat_completeness auto
termination
  by (relation "measure (\<lambda>(cmp, xs, pivot, first). length xs - first)") auto

function partition_down :: "('a \<Rightarrow> 'a \<Rightarrow> bool) \<Rightarrow> 'a list \<Rightarrow> nat \<Rightarrow> nat \<Rightarrow> nat" where
  "partition_down cmp xs pivot lst =
     (if 0 < lst \<and> cmp (xs ! pivot) (xs ! lst)
      then partition_down cmp xs pivot (lst - 1) else lst)"
  by pat_completeness auto
termination
  by (relation "measure (\<lambda>(cmp, xs, pivot, lst). lst)") auto

declare partition_up.simps [simp del] partition_down.simps [simp del]

text \<open>The loops move in one direction only, which the termination of the partition needs.\<close>

lemma partition_up_ge: "first \<le> partition_up cmp xs pivot first"
  by (induction cmp xs pivot first rule: partition_up.induct)
     (subst partition_up.simps, auto)

lemma partition_down_le: "partition_down cmp xs pivot lst \<le> lst"
  by (induction cmp xs pivot lst rule: partition_down.induct)
     (subst partition_down.simps, auto)

text \<open>\<^verbatim>\<open>__unguarded_partition\<close>: the array after the swaps and the position of the cut.\<close>

function unguarded_partition ::
  "('a \<Rightarrow> 'a \<Rightarrow> bool) \<Rightarrow> 'a list \<Rightarrow> nat \<Rightarrow> nat \<Rightarrow> nat \<Rightarrow> 'a list \<times> nat" where
  "unguarded_partition cmp xs first lst pivot =
     (let first' = partition_up cmp xs pivot first;
          lst' = partition_down cmp xs pivot (lst - 1)
      in if \<not> first' < lst' then (xs, first')
         else unguarded_partition cmp (iter_swap xs first' lst') (first' + 1) lst' pivot)"
  by pat_completeness auto
termination
proof (relation "measure (\<lambda>(cmp, xs, first, lst, pivot). lst - first)", goal_cases)
  case 1
  show ?case by simp
next
  case (2 cmp xs first lst pivot first' lst')
  have "first \<le> first'" using 2(1) by (simp add: partition_up_ge)
  moreover have "lst' \<le> lst - 1" using 2(2) by (simp add: partition_down_le)
  ultimately show ?case using 2(3) by simp
qed

declare unguarded_partition.simps [simp del]

definition unguarded_partition_pivot ::
  "('a \<Rightarrow> 'a \<Rightarrow> bool) \<Rightarrow> 'a list \<Rightarrow> nat \<Rightarrow> nat \<Rightarrow> 'a list \<times> nat" where
  "unguarded_partition_pivot cmp xs first lst =
     (let mid = first + (lst - first) div 2
      in unguarded_partition cmp
           (move_median_to_first cmp xs first (first + 1) mid (lst - 1))
           (first + 1) lst first)"

text \<open>
  \<^verbatim>\<open>__introsort_loop\<close> with the threshold of 16 elements. When the depth limit is used up
  the library goes on with heap sort (\<^verbatim>\<open>__partial_sort\<close>), which is not modelled: the
  result is \<open>None\<close> there.
\<close>

function introsort_loop ::
  "('a \<Rightarrow> 'a \<Rightarrow> bool) \<Rightarrow> 'a list \<Rightarrow> nat \<Rightarrow> nat \<Rightarrow> nat \<Rightarrow> 'a list option" where
  "introsort_loop cmp xs first lst depth_limit =
     (if 16 < lst - first then
        (if depth_limit = 0 then None
         else (case unguarded_partition_pivot cmp xs first lst of
                 (xs', cut') \<Rightarrow>
                   (case introsort_loop cmp xs' cut' lst (depth_limit - 1) of
                      None \<Rightarrow> None
                    | Some xs'' \<Rightarrow> introsort_loop cmp xs'' first cut' (depth_limit - 1))))
      else Some xs)"
  by pat_completeness auto
termination
  by (relation "measure (\<lambda>(cmp, xs, first, lst, depth_limit). depth_limit)") auto

declare introsort_loop.simps [simp del]

text \<open>
  \<^verbatim>\<open>__unguarded_linear_insert\<close>, \<^verbatim>\<open>__insertion_sort\<close> (the loop over \<open>i\<close> and its start),
  \<^verbatim>\<open>__unguarded_insertion_sort\<close> and \<^verbatim>\<open>__final_insertion_sort\<close>. An element that is less
  than the first one is moved to the front with \<^verbatim>\<open>move_backward\<close>.
\<close>

function unguarded_linear_insert ::
  "('a \<Rightarrow> 'a \<Rightarrow> bool) \<Rightarrow> 'a list \<Rightarrow> 'a \<Rightarrow> nat \<Rightarrow> 'a list" where
  "unguarded_linear_insert cmp xs val lst =
     (if 0 < lst \<and> cmp val (xs ! (lst - 1))
      then unguarded_linear_insert cmp (xs[lst := xs ! (lst - 1)]) val (lst - 1)
      else xs[lst := val])"
  by pat_completeness auto
termination
  by (relation "measure (\<lambda>(cmp, xs, val, lst). lst)") auto

declare unguarded_linear_insert.simps [simp del]

function insertion_sort_from ::
  "('a \<Rightarrow> 'a \<Rightarrow> bool) \<Rightarrow> 'a list \<Rightarrow> nat \<Rightarrow> nat \<Rightarrow> nat \<Rightarrow> 'a list" where
  "insertion_sort_from cmp xs first i lst =
     (if i < lst then
        insertion_sort_from cmp
          (if cmp (xs ! i) (xs ! first)
           then take first xs @ xs ! i # take (i - first) (drop first xs) @ drop (i + 1) xs
           else unguarded_linear_insert cmp xs (xs ! i) i)
          first (i + 1) lst
      else xs)"
  by pat_completeness auto
termination
  by (relation "measure (\<lambda>(cmp, xs, first, i, lst). lst - i)") auto

declare insertion_sort_from.simps [simp del]

definition insertion_sort :: "('a \<Rightarrow> 'a \<Rightarrow> bool) \<Rightarrow> 'a list \<Rightarrow> nat \<Rightarrow> nat \<Rightarrow> 'a list" where
  "insertion_sort cmp xs first lst =
     (if first = lst then xs else insertion_sort_from cmp xs first (first + 1) lst)"

function unguarded_insertion_sort ::
  "('a \<Rightarrow> 'a \<Rightarrow> bool) \<Rightarrow> 'a list \<Rightarrow> nat \<Rightarrow> nat \<Rightarrow> 'a list" where
  "unguarded_insertion_sort cmp xs i lst =
     (if i < lst
      then unguarded_insertion_sort cmp (unguarded_linear_insert cmp xs (xs ! i) i) (i + 1) lst
      else xs)"
  by pat_completeness auto
termination
  by (relation "measure (\<lambda>(cmp, xs, i, lst). lst - i)") auto

declare unguarded_insertion_sort.simps [simp del]

definition final_insertion_sort ::
  "('a \<Rightarrow> 'a \<Rightarrow> bool) \<Rightarrow> 'a list \<Rightarrow> nat \<Rightarrow> nat \<Rightarrow> 'a list" where
  "final_insertion_sort cmp xs first lst =
     (if 16 < lst - first
      then unguarded_insertion_sort cmp (insertion_sort cmp xs first (first + 16))
             (first + 16) lst
      else insertion_sort cmp xs first lst)"

text \<open>\<^verbatim>\<open>std::__lg\<close>: the position of the highest bit.\<close>

function std_lg :: "nat \<Rightarrow> nat" where
  "std_lg n = (if n \<le> 1 then 0 else std_lg (n div 2) + 1)"
  by pat_completeness auto
termination
  by (relation "measure (\<lambda>n. n)") auto

declare std_lg.simps [simp del]

text \<open>\<^verbatim>\<open>std::__sort\<close>.\<close>

definition libstdcxx_sort :: "('a \<Rightarrow> 'a \<Rightarrow> bool) \<Rightarrow> 'a list \<Rightarrow> 'a list option" where
  "libstdcxx_sort cmp xs =
     (if xs = [] then Some xs
      else (case introsort_loop cmp xs 0 (length xs) (std_lg (length xs) * 2) of
              None \<Rightarrow> None
            | Some ys \<Rightarrow> Some (final_insertion_sort cmp ys 0 (length ys))))"

section \<open>Example inputs\<close>

text \<open>
  A tool with the default flags, no \<^verbatim>\<open>PMTconfigTag\<close>, no board setup, a tick of 2 ns and the
  trigger at 1000 ns; board setups and board configurations to put into it.
\<close>

definition tool0 :: PMTDecoder where
  "tool0 = \<lparr> fDiagnosticOutput = False, fRequireKnownBoards = True,
             fRequireBoardConfig = True, fPMTconfigTag = None, fBoardSetup = [],
             fOpticalTick = 2, TriggerTime = 1000, fChannelMap = Map.empty,
             fOpDetWaveformCollection = Some [], fBoardInfoLookup = None \<rparr>"

definition setup_a :: BoardSetup_t where
  "setup_a = \<lparr> setup_name = ''a'', setup_fragmentID = 5, triggerDelay = 43 \<rparr>"

definition setup_b :: BoardSetup_t where
  "setup_b = \<lparr> setup_name = ''b'', setup_fragmentID = 5, triggerDelay = 7 \<rparr>"

definition setup_x :: BoardSetup_t where
  "setup_x = \<lparr> setup_name = ''x'', setup_fragmentID = NoFragmentID, triggerDelay = 0 \<rparr>"

definition config_a :: V1730Configuration where
  "config_a = \<lparr> boardName = ''a'', cfg_fragmentID = 5, bufferLength = 1000,
                postTriggerFrac = 0 \<rparr>"

definition config_a9 :: V1730Configuration where
  "config_a9 = \<lparr> boardName = ''a'', cfg_fragmentID = 9, bufferLength = 1000,
                 postTriggerFrac = 0 \<rparr>"

definition config_x :: V1730Configuration where
  "config_x = \<lparr> boardName = ''x'', cfg_fragmentID = 3, bufferLength = 1000,
                postTriggerFrac = 1 / 2 \<rparr>"

definition config_x7 :: V1730Configuration where
  "config_x7 = \<lparr> boardName = ''x'', cfg_fragmentID = 7, bufferLength = 1000,
                 postTriggerFrac = 1 / 2 \<rparr>"

lemmas example_defs =
  tool0_def setup_a_def setup_b_def setup_x_def config_a_def config_a9_def config_x_def
  config_x7_def

lemmas matching_defs =
  matchBoardConfigurationAndSetup_def matchBoard_def findPMTconfig_def
  hasPMTconfiguration_def newBoardInfo_def hasFragmentID_def NoFragmentID_def
  BoardInfoLookup_def BoardInfo_key_def configByName_def boards_def binarySearch_def
  lower_bound.simps

text \<open>
  The record of board a as the merge builds it from \<open>setup_a\<close> and \<open>config_a\<close>, and three
  fragments: two of board a (fragment ID 5), with 8 samples for 2 channels and with 6
  samples for 4 channels, and one of a board with the fragment ID 8194.
\<close>

definition board_a :: BoardInfo_t where
  "board_a = \<lparr> fragmentID = 5, board_setup = Some setup_a, board_config = Some config_a,
               facts = \<lparr> preTriggerTime = 2000 \<rparr> \<rparr>"

definition fragment_even :: Fragment where
  "fragment_even = \<lparr> frag_fragmentID = 5, nChannels = 2, eventSize = 8, triggerTimeTag = 0,
                      payload = [1, 2, 3, 4, 5, 6, 7, 8] \<rparr>"

definition fragment_uneven :: Fragment where
  "fragment_uneven = \<lparr> frag_fragmentID = 5, nChannels = 4, eventSize = 7, triggerTimeTag = 0,
                        payload = [1, 2, 3, 4, 5, 6] \<rparr>"

definition fragment_unknown :: Fragment where
  "fragment_unknown = \<lparr> frag_fragmentID = 8194, nChannels = 2, eventSize = 8,
                         triggerTimeTag = 0,
                         payload = [1, 2, 3, 4, 5, 6, 7, 8] \<rparr>"

lemmas decoding_defs =
  process_fragment_def boardTimeStamp_def fetchNeededBoardInfo_def findBoardInfo_def
  binarySearch_def lower_bound.simps nSamplesPerChannel_def data_size_double_bytes_def
  evt_header_size_quad_bytes_def hasPMTconfiguration_def to_string.simps

lemmas fragment_defs = board_a_def fragment_even_def fragment_uneven_def fragment_unknown_def

text \<open>
  A waveform of channel 101 with one sample, which tells the waveforms of the channel
  apart (the number of the fragment that it comes from).
\<close>

definition channel_101 :: "16 word \<Rightarrow> OpDetWaveform" where
  "channel_101 k = \<lparr> TimeStamp = 0, ChannelNumber = 101, Waveform = [k] \<rparr>"

lemmas libstdcxx_sort_defs =
  libstdcxx_sort_def std_lg.simps introsort_loop.simps unguarded_partition_pivot_def
  move_median_to_first_def iter_swap_def unguarded_partition.simps partition_up.simps
  partition_down.simps final_insertion_sort_def insertion_sort_def
  insertion_sort_from.simps unguarded_insertion_sort.simps unguarded_linear_insert.simps

section \<open>Properties\<close>

subsection \<open>Binary search\<close>

text \<open>
  The bisection stays inside its interval and splits a sorted sequence into the elements
  below the key and the others; so on a sorted sequence \<open>binarySearch\<close> returns the first
  element that has the key, if there is one.
\<close>

lemma lower_bound_range:
  "lo \<le> hi \<Longrightarrow> lo \<le> lower_bound key xs k lo hi \<and> lower_bound key xs k lo hi \<le> hi"
proof (induction key xs k lo hi rule: lower_bound.induct)
  case (1 key xs k lo hi)
  show ?case
  proof (cases "lo < hi")
    case False
    with "1.prems" show ?thesis by (simp add: lower_bound.simps)
  next
    case True
    define mid where "mid = lo + (hi - lo) div 2"
    have m: "lo \<le> mid" "mid < hi" using True by (auto simp: mid_def)
    show ?thesis
    proof (cases "key (xs ! mid) < k")
      case T2: True
      have "mid + 1 \<le> hi" using m by simp
      from "1.IH"(1)[OF True mid_def T2 this] m True T2 show ?thesis
        by (subst (1 2) lower_bound.simps) (simp add: mid_def Let_def)
    next
      case F2: False
      have "lo \<le> mid" using m by simp
      from "1.IH"(2)[OF True mid_def F2 this] m True F2 show ?thesis
        by (subst (1 2) lower_bound.simps) (simp add: mid_def Let_def)
    qed
  qed
qed

lemma lower_bound_partition:
  assumes "sorted (map key xs)" "lo \<le> hi" "hi \<le> length xs"
    and "\<forall>i<lo. key (xs ! i) < k"
    and "\<forall>i. hi \<le> i \<and> i < length xs \<longrightarrow> k \<le> key (xs ! i)"
  shows "(\<forall>i < lower_bound key xs k lo hi. key (xs ! i) < k) \<and>
         (\<forall>i. lower_bound key xs k lo hi \<le> i \<and> i < length xs \<longrightarrow> k \<le> key (xs ! i))"
  using assms
proof (induction key xs k lo hi rule: lower_bound.induct)
  case (1 key xs k lo hi)
  show ?case
  proof (cases "lo < hi")
    case False
    with "1.prems" have "lo = hi" by simp
    with "1.prems" False show ?thesis by (simp add: lower_bound.simps)
  next
    case True
    define mid where "mid = lo + (hi - lo) div 2"
    have m: "lo \<le> mid" "mid < hi" using True by (auto simp: mid_def)
    have srt: "\<And>i j. i \<le> j \<Longrightarrow> j < length xs \<Longrightarrow> key (xs ! i) \<le> key (xs ! j)"
      using "1.prems"(1) by (simp add: sorted_iff_nth_mono)
    show ?thesis
    proof (cases "key (xs ! mid) < k")
      case T2: True
      have a: "mid + 1 \<le> hi" using m by simp
      have b: "\<forall>i<mid + 1. key (xs ! i) < k"
      proof (intro allI impI)
        fix i assume "i < mid + 1"
        then have "i \<le> mid" by simp
        moreover have "mid < length xs" using m "1.prems"(3) by simp
        ultimately have "key (xs ! i) \<le> key (xs ! mid)" by (rule srt)
        with T2 show "key (xs ! i) < k" by simp
      qed
      have eq: "lower_bound key xs k lo hi = lower_bound key xs k (mid + 1) hi"
        using True T2 by (subst lower_bound.simps) (simp add: mid_def Let_def)
      from "1.IH"(1)[OF True mid_def T2 "1.prems"(1) a "1.prems"(3) b "1.prems"(5)]
      show ?thesis unfolding eq .
    next
      case F2: False
      have a: "lo \<le> mid" using m by simp
      have a2: "mid \<le> length xs" using m "1.prems"(3) by simp
      have b: "\<forall>i. mid \<le> i \<and> i < length xs \<longrightarrow> k \<le> key (xs ! i)"
      proof (intro allI impI)
        fix i assume "mid \<le> i \<and> i < length xs"
        then have "key (xs ! mid) \<le> key (xs ! i)" using srt by blast
        with F2 show "k \<le> key (xs ! i)" by simp
      qed
      have eq: "lower_bound key xs k lo hi = lower_bound key xs k lo mid"
        using True F2 by (subst lower_bound.simps) (simp add: mid_def Let_def)
      from "1.IH"(2)[OF True mid_def F2 "1.prems"(1) a a2 "1.prems"(4) b]
      show ?thesis unfolding eq .
    qed
  qed
qed

lemma binarySearch_find:
  assumes "sorted (map key xs)"
  shows "binarySearch key xs k = find (\<lambda>x. key x = k) xs"
proof -
  define r where "r = lower_bound key xs k 0 (length xs)"
  have rng: "r \<le> length xs" using lower_bound_range[of 0 "length xs" key xs k] by (simp add: r_def)
  have part: "(\<forall>i<r. key (xs ! i) < k) \<and> (\<forall>i. r \<le> i \<and> i < length xs \<longrightarrow> k \<le> key (xs ! i))"
    unfolding r_def by (rule lower_bound_partition[OF assms]) auto
  show ?thesis
  proof (cases "r < length xs \<and> key (xs ! r) = k")
    case True
    then have "binarySearch key xs k = Some (xs ! r)"
      by (simp add: binarySearch_def r_def Let_def)
    moreover have "find (\<lambda>x. key x = k) xs = Some (xs ! r)"
      unfolding find_Some_iff using True part by (intro exI[of _ r]) auto
    ultimately show ?thesis by simp
  next
    case False
    then have b: "binarySearch key xs k = None"
      by (auto simp add: binarySearch_def r_def Let_def)
    have "\<not> (\<exists>x. x \<in> set xs \<and> key x = k)"
    proof
      assume "\<exists>x. x \<in> set xs \<and> key x = k"
      then obtain i where i: "i < length xs" "key (xs ! i) = k"
        by (auto simp: in_set_conv_nth)
      have "r \<le> i" using part i by (metis less_irrefl not_le_imp_less)
      have rl: "r < length xs" using \<open>r \<le> i\<close> i by simp
      have "key (xs ! r) \<le> key (xs ! i)"
        using assms \<open>r \<le> i\<close> i(1) by (simp add: sorted_iff_nth_mono)
      moreover have "k \<le> key (xs ! r)" using part rl by simp
      ultimately have "key (xs ! r) = k" using i by simp
      with rl False show False by simp
    qed
    then have "find (\<lambda>x. key x = k) xs = None" by (simp add: find_None_iff)
    with b show ?thesis by simp
  qed
qed

lemma binarySearch_Some:
  "binarySearch key xs k = Some x \<Longrightarrow> x \<in> set xs \<and> key x = k"
  unfolding binarySearch_def Let_def by (metis nth_mem option.distinct(1) option.inject)

subsection \<open>The lookup of a board configuration by name\<close>

text \<open>
  The pairs of \<open>configByName\<close> are sorted by name, and pairs of one name by their position
  in \<^verbatim>\<open>boards\<close>. So the search finds, for a name, the first board configuration of
  \<^verbatim>\<open>boards\<close> with that name.
\<close>

lemma fst_mono_prod: "(a::('a::linorder \<times> 'b::linorder)) \<le> b \<Longrightarrow> fst a \<le> fst b"
  by (auto simp: less_eq_prod_def)

lemma sorted_map_fst: "sorted (zs :: ('a::linorder \<times> 'b::linorder) list) \<Longrightarrow> sorted (map fst zs)"
  by (induction zs) (auto simp: fst_mono_prod)

lemma find_index_least:
  assumes "i < length bs" "P (bs ! i)" "\<forall>j<i. \<not> P (bs ! j)"
  shows "find P bs = Some (bs ! i)"
  unfolding find_Some_iff using assms by blast

lemma configByName_find:
  fixes f :: "'c \<Rightarrow> 'k::linorder"
  shows "map_option (\<lambda>p. bs ! snd p) (find (\<lambda>p. fst p = nm) (sort (zip (map f bs) [0 ..< length bs])))
       = find (\<lambda>c. f c = nm) bs"
proof -
  define zs where "zs = sort (zip (map f bs) [0 ..< length bs])"
  have set_zs: "set zs = {(f (bs ! i), i) | i. i < length bs}"
  proof -
    have "set zs = set (zip (map f bs) [0 ..< length bs])" by (simp add: zs_def)
    also have "\<dots> = {(f (bs ! i), i) | i. i < length bs}"
      by (force simp: set_zip)
    finally show ?thesis .
  qed
  have srt: "sorted zs" by (simp add: zs_def)
  show ?thesis
  proof (cases "find (\<lambda>p. fst p = nm) zs")
    case None
    then have "\<not> (\<exists>p. p \<in> set zs \<and> fst p = nm)" by (simp add: find_None_iff)
    then have "\<not> (\<exists>c. c \<in> set bs \<and> f c = nm)"
      unfolding set_zs by (auto simp: in_set_conv_nth)
    then have "find (\<lambda>c. f c = nm) bs = None" by (simp add: find_None_iff)
    with None show ?thesis by (simp add: zs_def)
  next
    case (Some p)
    then obtain k where k: "k < length zs" "zs ! k = p" "fst p = nm" "\<forall>j<k. fst (zs ! j) \<noteq> nm"
      unfolding find_Some_iff by blast
    have "p \<in> set zs" using k(1,2) nth_mem by blast
    then obtain i where i: "i < length bs" "p = (f (bs ! i), i)"
      unfolding set_zs by blast
    have fi: "f (bs ! i) = nm" using i k(3) by simp
    have least: "\<forall>j<i. f (bs ! j) \<noteq> nm"
    proof (intro allI impI notI)
      fix j assume j: "j < i" "f (bs ! j) = nm"
      then have "(nm, j) \<in> set zs" using i(1) unfolding set_zs by auto
      then obtain m where m: "m < length zs" "zs ! m = (nm, j)"
        by (auto simp: in_set_conv_nth)
      have "\<not> m < k" using k(4) m(2) by auto
      moreover have "m \<noteq> k" using m(2) k(2) i(2) j(1) by auto
      ultimately have "k < m" by simp
      then have "zs ! k \<le> zs ! m" using srt m(1) by (simp add: sorted_iff_nth_mono)
      then have "(nm, i) \<le> (nm, j)" using k(2) i(2) fi m(2) by simp
      then show False using j(1) by (simp add: less_eq_prod_def)
    qed
    have "find (\<lambda>c. f c = nm) bs = Some (bs ! i)"
      by (rule find_index_least) (use i fi least in auto)
    with Some i show ?thesis by (simp add: zs_def)
  qed
qed

lemma findPMTconfig_find:
  "findPMTconfig d PMTconfig nm =
     (if \<not> hasPMTconfiguration d then Inr None
      else (case find (\<lambda>c. boardName c = nm) (boards PMTconfig) of
              None \<Rightarrow> if fRequireKnownBoards d then Inl (NoDAQConfiguration nm) else Inl NullDereference
            | Some c \<Rightarrow> Inr (Some c)))"
proof -
  have srt: "sorted (map fst (configByName PMTconfig))"
    unfolding configByName_def by (rule sorted_map_fst) simp
  have "map_option (\<lambda>p. boards PMTconfig ! snd p) (binarySearch fst (configByName PMTconfig) nm)
        = find (\<lambda>c. boardName c = nm) (boards PMTconfig)"
    unfolding binarySearch_find[OF srt]
    using configByName_find[of "boards PMTconfig" nm boardName]
    by (simp add: configByName_def)
  then show ?thesis
    by (cases "binarySearch fst (configByName PMTconfig) nm")
       (auto simp: findPMTconfig_def split: option.splits)
qed

subsection \<open>The loop over the board setups\<close>

text \<open>
  The loop fails with the error of the first entry that fails; when no entry fails it
  collects the records and the warnings of the entries in their order.
\<close>

lemma matchLoop_closed_form:
  "matchLoop d pc ss (db, lg) =
     (case find (\<lambda>s. isl (matchBoard d pc s)) ss of
        Some s \<Rightarrow> Inl (projl (matchBoard d pc s))
      | None \<Rightarrow> Inr (db @ concat (map (\<lambda>s. fst (projr (matchBoard d pc s))) ss),
                     lg @ concat (map (\<lambda>s. snd (projr (matchBoard d pc s))) ss)))"
proof (induction ss arbitrary: db lg)
  case Nil
  show ?case by simp
next
  case (Cons s ss)
  show ?case
  proof (cases "matchBoard d pc s")
    case (Inl e)
    then show ?thesis by simp
  next
    case (Inr r)
    obtain new msgs where r: "r = (new, msgs)" by (cases r)
    show ?thesis using Inr r Cons.IH[of "db @ new" "lg @ msgs"]
      by (simp split: option.splits)
  qed
qed

lemma matchBoard_without_configuration:
  assumes "\<not> hasPMTconfiguration d"
  shows "matchBoard d pc s =
     (if hasFragmentID s
      then Inr ([\<lparr> fragmentID = setup_fragmentID s, board_setup = Some s, board_config = None,
                   facts = \<lparr> preTriggerTime = 0 \<rparr> \<rparr>],
                [NoConfigurationInformation (setup_name s)])
      else Inr ([], [NoFragmentIDAssociation (setup_name s)]))"
  using assms
  by (simp add: matchBoard_def findPMTconfig_find newBoardInfo_def hasFragmentID_def)

lemma matchBoard_with_configuration:
  assumes "hasPMTconfiguration d"
  shows "matchBoard d pc s =
     (case find (\<lambda>c. boardName c = setup_name s) (boards pc) of
        None \<Rightarrow> if fRequireKnownBoards d then Inl (NoDAQConfiguration (setup_name s))
                else Inl NullDereference
      | Some c \<Rightarrow>
          if hasFragmentID s \<and> setup_fragmentID s \<noteq> cfg_fragmentID c
          then Inl (FragmentIDMismatch (setup_name s) (cfg_fragmentID c) (setup_fragmentID s))
          else if cfg_fragmentID c = NoFragmentID then Inl AssertionFailed
          else Inr ([\<lparr> fragmentID = cfg_fragmentID c, board_setup = Some s,
                        board_config = Some c,
                        facts = \<lparr> preTriggerTime =
                          (real (unat (bufferLength c)) * (1 - postTriggerFrac c))
                             * fOpticalTick d \<rparr> \<rparr>], []))"
  using assms
  by (simp add: matchBoard_def findPMTconfig_find newBoardInfo_def split: option.splits)

lemma matchBoard_records:
  assumes "matchBoard d pc s = Inr (new, msgs)"
  shows "length new = (if hasPMTconfiguration d \<or> hasFragmentID s then 1 else 0)"
proof (cases "hasPMTconfiguration d")
  case True
  from assms show ?thesis
    unfolding matchBoard_with_configuration[OF True] using True
    by (auto split: option.splits if_splits)
next
  case False
  from assms show ?thesis
    unfolding matchBoard_without_configuration[OF False] using False
    by (auto split: if_splits)
qed

lemma length_concat_records:
  assumes "\<forall>s\<in>set ss. \<not> isl (matchBoard d pc s)"
  shows "length (concat (map (\<lambda>s. fst (projr (matchBoard d pc s))) ss))
       = length (filter (\<lambda>s. hasPMTconfiguration d \<or> hasFragmentID s) ss)"
  using assms
proof (induction ss)
  case Nil
  show ?case by simp
next
  case (Cons s ss)
  from Cons.prems obtain new msgs where r: "matchBoard d pc s = Inr (new, msgs)"
    by (cases "matchBoard d pc s") auto
  from matchBoard_records[OF r] Cons r show ?case by simp
qed

lemma matchBoardConfigurationAndSetup_Inr:
  assumes "matchBoardConfigurationAndSetup d pc = Inr (db, lg)"
  shows "(\<forall>s\<in>set (fBoardSetup d). \<not> isl (matchBoard d pc s))
       \<and> db = BoardInfoLookup (concat (map (\<lambda>s. fst (projr (matchBoard d pc s))) (fBoardSetup d)))
       \<and> lg = concat (map (\<lambda>s. snd (projr (matchBoard d pc s))) (fBoardSetup d))"
  using assms
  by (auto simp: matchBoardConfigurationAndSetup_def matchLoop_closed_form
        find_None_iff split: option.splits sum.splits)

lemma matchBoardConfigurationAndSetup_ok:
  assumes "\<forall>s\<in>set (fBoardSetup d). \<not> isl (matchBoard d pc s)"
  shows "matchBoardConfigurationAndSetup d pc =
     Inr (BoardInfoLookup (concat (map (\<lambda>s. fst (projr (matchBoard d pc s))) (fBoardSetup d))),
          concat (map (\<lambda>s. snd (projr (matchBoard d pc s))) (fBoardSetup d)))"
proof -
  have "find (\<lambda>s. isl (matchBoard d pc s)) (fBoardSetup d) = None"
    using assms by (simp add: find_None_iff)
  then show ?thesis
    by (simp add: matchBoardConfigurationAndSetup_def matchLoop_closed_form)
qed

lemma matchBoardConfigurationAndSetup_fails:
  assumes "s \<in> set (fBoardSetup d)" "isl (matchBoard d pc s)"
  shows "\<exists>e. matchBoardConfigurationAndSetup d pc = Inl e"
proof -
  have "find (\<lambda>s. isl (matchBoard d pc s)) (fBoardSetup d) \<noteq> None"
    using assms by (auto simp: find_None_iff)
  then show ?thesis
    by (auto simp: matchBoardConfigurationAndSetup_def matchLoop_closed_form)
qed

lemma matchBoardConfigurationAndSetup_first_failure:
  assumes "fBoardSetup d = pre @ s # post"
    and "\<forall>p\<in>set pre. \<not> isl (matchBoard d pc p)"
    and "matchBoard d pc s = Inl e"
  shows "matchBoardConfigurationAndSetup d pc = Inl e"
proof -
  have "find (\<lambda>s. isl (matchBoard d pc s)) (pre @ s # post) = Some s"
    using assms(2,3) by (induction pre) auto
  then show ?thesis
    using assms(1,3) by (simp add: matchBoardConfigurationAndSetup_def matchLoop_closed_form)
qed

subsection \<open>The database is sorted and has every fragment ID once\<close>

text \<open>
  \<open>unique_fragmentID\<close> keeps the first record of every run of records with one fragment ID;
  on a sequence sorted by fragment ID that leaves every fragment ID once. The records of
  the database are records that the merge collected, and every fragment ID collected is
  in the database. The database depends only on which records were collected and how
  often, not on their order.
\<close>

lemma unique_fragmentID_head:
  "\<exists>ys. unique_fragmentID (x # xs) = x # ys \<and> set ys \<subseteq> set xs"
proof (induction xs arbitrary: x)
  case Nil
  show ?case by simp
next
  case (Cons y rest)
  show ?case
  proof (cases "fragmentID x = fragmentID y")
    case True
    with Cons.IH[of x] show ?thesis by auto
  next
    case False
    with Cons.IH[of y] show ?thesis by auto
  qed
qed

lemma set_unique_fragmentID: "set (unique_fragmentID xs) \<subseteq> set xs"
proof (cases xs)
  case Nil
  then show ?thesis by simp
next
  case (Cons x rest)
  with unique_fragmentID_head[of x rest] show ?thesis by auto
qed

lemma fragmentIDs_unique_fragmentID:
  "fragmentID ` set (unique_fragmentID xs) = fragmentID ` set xs"
  by (induction xs rule: unique_fragmentID.induct) auto

lemma unique_fragmentID_sorted_distinct:
  assumes "sorted (map fragmentID xs)"
  shows "sorted (map fragmentID (unique_fragmentID xs))
       \<and> distinct (map fragmentID (unique_fragmentID xs))"
  using assms
proof (induction xs rule: unique_fragmentID.induct)
  case (1 x y rest)
  show ?case
  proof (cases "fragmentID x = fragmentID y")
    case True
    from "1.prems" have "sorted (map fragmentID (x # rest))" by simp
    with "1.IH"(1)[OF True] True show ?thesis by simp
  next
    case False
    from "1.prems" have srt: "sorted (map fragmentID (y # rest))" by simp
    from "1.prems" False have lt: "\<forall>z\<in>set (y # rest). fragmentID x < fragmentID z"
      by (auto simp: less_le)
    from set_unique_fragmentID[of "y # rest"] lt
    have "\<forall>z\<in>set (unique_fragmentID (y # rest)). fragmentID x < fragmentID z" by blast
    with "1.IH"(2)[OF False srt] False show ?thesis by (auto simp: less_imp_le)
  qed
qed simp_all

lemma sorted_map_fst_key:
  fixes k :: "'a \<Rightarrow> 'b::linorder \<times> 'c::linorder"
  assumes "sorted (map k ys)"
  shows "sorted (map (\<lambda>y. fst (k y)) ys)"
  using assms by (induction ys) (auto simp: fst_mono_prod)

lemma fragmentID_BoardInfo_key: "fst (BoardInfo_key b) = fragmentID b"
  by (simp add: BoardInfo_key_def)

lemma BoardInfoLookup_sorted_distinct:
  "sorted (map fragmentID (BoardInfoLookup database))
   \<and> distinct (map fragmentID (BoardInfoLookup database))"
proof -
  have "sorted (map (\<lambda>b. fst (BoardInfo_key b)) (sort_key BoardInfo_key database))"
    by (rule sorted_map_fst_key) simp
  then have "sorted (map fragmentID (sort_key BoardInfo_key database))"
    by (simp add: fragmentID_BoardInfo_key)
  then show ?thesis unfolding BoardInfoLookup_def by (rule unique_fragmentID_sorted_distinct)
qed

lemma set_BoardInfoLookup: "set (BoardInfoLookup database) \<subseteq> set database"
  unfolding BoardInfoLookup_def using set_unique_fragmentID[of "sort_key BoardInfo_key database"]
  by simp

lemma fragmentIDs_BoardInfoLookup:
  "fragmentID ` set (BoardInfoLookup database) = fragmentID ` set database"
  unfolding BoardInfoLookup_def by (simp add: fragmentIDs_unique_fragmentID)





text \<open>
  C1. For every database that \<open>matchBoardConfigurationAndSetup\<close> returns, the fragment IDs
  of its records are pairwise distinct and the records are sorted ascending by fragment
  ID. The fragment IDs of the database are those of the records that the loop over the
  board setups collected.
\<close>

theorem database_distinct_sorted:
  assumes "matchBoardConfigurationAndSetup d PMTconfig = Inr (db, lg)"
  shows "distinct (map fragmentID db) \<and> sorted (map fragmentID db)
       \<and> fragmentID ` set db
           = fragmentID ` set (concat (map (\<lambda>s. fst (projr (matchBoard d PMTconfig s)))
                                         (fBoardSetup d)))"
proof -
  from matchBoardConfigurationAndSetup_Inr[OF assms]
  have db: "db = BoardInfoLookup
               (concat (map (\<lambda>s. fst (projr (matchBoard d PMTconfig s))) (fBoardSetup d)))"
    by simp
  show ?thesis unfolding db
    using BoardInfoLookup_sorted_distinct fragmentIDs_BoardInfoLookup by blast
qed

text \<open>
  The boards a and b are both set up with the fragment ID 5, board x is configured with
  the fragment ID 3: the database has one record for 3 and one for 5.
\<close>

theorem database_distinct_sorted_witness:
  "matchBoardConfigurationAndSetup
     (tool0\<lparr> fBoardSetup := [setup_b, setup_a] \<rparr>) None
     = Inr ([\<lparr> fragmentID = 5, board_setup = Some setup_a, board_config = None,
                facts = \<lparr> preTriggerTime = 0 \<rparr> \<rparr>],
            [NoConfigurationInformation ''b'', NoConfigurationInformation ''a''])
   \<and> distinct (map fragmentID
        [\<lparr> fragmentID = 5, board_setup = Some setup_a, board_config = None,
            facts = \<lparr> preTriggerTime = 0 \<rparr> \<rparr>])
   \<and> matchBoardConfigurationAndSetup
     (tool0\<lparr> fPMTconfigTag := Some ''pmtconfig'', fBoardSetup := [setup_a, setup_x] \<rparr>)
     (Some [config_x, config_a])
     = Inr ([\<lparr> fragmentID = 3, board_setup = Some setup_x, board_config = Some config_x,
                facts = \<lparr> preTriggerTime = 1000 \<rparr> \<rparr>,
             \<lparr> fragmentID = 5, board_setup = Some setup_a, board_config = Some config_a,
                facts = \<lparr> preTriggerTime = 2000 \<rparr> \<rparr>], [])
   \<and> sorted (map fragmentID
        [\<lparr> fragmentID = 3, board_setup = Some setup_x, board_config = Some config_x,
            facts = \<lparr> preTriggerTime = 1000 \<rparr> \<rparr>,
         \<lparr> fragmentID = 5, board_setup = Some setup_a, board_config = Some config_a,
            facts = \<lparr> preTriggerTime = 2000 \<rparr> \<rparr>])"
proof -
  have run1: "matchBoardConfigurationAndSetup
     (tool0\<lparr> fBoardSetup := [setup_b, setup_a] \<rparr>) None
     = Inr ([\<lparr> fragmentID = 5, board_setup = Some setup_a, board_config = None,
                facts = \<lparr> preTriggerTime = 0 \<rparr> \<rparr>],
            [NoConfigurationInformation ''b'', NoConfigurationInformation ''a''])"
    by (simp add: matching_defs example_defs)
  have run2: "matchBoardConfigurationAndSetup
     (tool0\<lparr> fPMTconfigTag := Some ''pmtconfig'', fBoardSetup := [setup_a, setup_x] \<rparr>)
     (Some [config_x, config_a])
     = Inr ([\<lparr> fragmentID = 3, board_setup = Some setup_x, board_config = Some config_x,
                facts = \<lparr> preTriggerTime = 1000 \<rparr> \<rparr>,
             \<lparr> fragmentID = 5, board_setup = Some setup_a, board_config = Some config_a,
                facts = \<lparr> preTriggerTime = 2000 \<rparr> \<rparr>], [])"
    by (simp add: matching_defs example_defs)
  from database_distinct_sorted[OF run1] database_distinct_sorted[OF run2] run1 run2
  show ?thesis by simp
qed

subsection \<open>Permuted inputs\<close>








subsection \<open>Conflicting fragment IDs\<close>

text \<open>
  C4 (amended). Let a PMT configuration be in use, and let a board setup have a
  \<^verbatim>\<open>FragmentID\<close> that differs from the fragment ID of the board configuration found for its
  name. Then \<open>matchBoardConfigurationAndSetup\<close> returns no database: it ends with an
  error. The error is the one of the first board setup that fails; it is the fragment
  ID mismatch of this entry when no entry before it fails.
\<close>

theorem fragmentID_mismatch_aborts:
  assumes "hasPMTconfiguration d"
    and "s \<in> set (fBoardSetup d)"
    and "find (\<lambda>c. boardName c = setup_name s) (boards PMTconfig) = Some c"
    and "hasFragmentID s"
    and "setup_fragmentID s \<noteq> cfg_fragmentID c"
  shows "(\<exists>e. matchBoardConfigurationAndSetup d PMTconfig = Inl e)
       \<and> (\<forall>pre post. fBoardSetup d = pre @ s # post
               \<and> (\<forall>p\<in>set pre. \<not> isl (matchBoard d PMTconfig p))
            \<longrightarrow> matchBoardConfigurationAndSetup d PMTconfig
                  = Inl (FragmentIDMismatch (setup_name s) (cfg_fragmentID c)
                           (setup_fragmentID s)))"
proof -
  have mb: "matchBoard d PMTconfig s
            = Inl (FragmentIDMismatch (setup_name s) (cfg_fragmentID c) (setup_fragmentID s))"
    using assms(3,4,5) by (simp add: matchBoard_with_configuration[OF assms(1)])
  then have "isl (matchBoard d PMTconfig s)" by simp
  from matchBoardConfigurationAndSetup_fails[OF assms(2) this]
  have "\<exists>e. matchBoardConfigurationAndSetup d PMTconfig = Inl e" .
  moreover have "matchBoardConfigurationAndSetup d PMTconfig
                  = Inl (FragmentIDMismatch (setup_name s) (cfg_fragmentID c)
                           (setup_fragmentID s))"
    if "fBoardSetup d = pre @ s # post" "\<forall>p\<in>set pre. \<not> isl (matchBoard d PMTconfig p)"
    for pre post
    using that mb by (rule matchBoardConfigurationAndSetup_first_failure)
  ultimately show ?thesis by blast
qed

text \<open>Board a is set up with the fragment ID 5 and configured with 9.\<close>

theorem fragmentID_mismatch_aborts_witness:
  "hasPMTconfiguration (tool0\<lparr> fPMTconfigTag := Some ''pmtconfig'', fBoardSetup := [setup_a] \<rparr>)
   \<and> find (\<lambda>c. boardName c = setup_name setup_a) (boards (Some [config_a9])) = Some config_a9
   \<and> hasFragmentID setup_a
   \<and> setup_fragmentID setup_a \<noteq> cfg_fragmentID config_a9
   \<and> matchBoardConfigurationAndSetup
        (tool0\<lparr> fPMTconfigTag := Some ''pmtconfig'', fBoardSetup := [setup_a] \<rparr>)
        (Some [config_a9])
      = Inl (FragmentIDMismatch ''a'' 9 5)"
proof -
  let ?d = "tool0\<lparr> fPMTconfigTag := Some ''pmtconfig'', fBoardSetup := [setup_a] \<rparr>"
  have h1: "hasPMTconfiguration ?d" by (simp add: hasPMTconfiguration_def)
  have h2: "setup_a \<in> set (fBoardSetup ?d)" by simp
  have h3: "find (\<lambda>c. boardName c = setup_name setup_a) (boards (Some [config_a9]))
            = Some config_a9"
    by (simp add: boards_def example_defs)
  have h4: "hasFragmentID setup_a" by (simp add: hasFragmentID_def NoFragmentID_def example_defs)
  have h5: "setup_fragmentID setup_a \<noteq> cfg_fragmentID config_a9" by (simp add: example_defs)
  have "fBoardSetup ?d = [] @ setup_a # [] \<and> (\<forall>p\<in>set []. \<not> isl (matchBoard ?d (Some [config_a9]) p))"
    by simp
  with fragmentID_mismatch_aborts[OF h1 h2 h3 h4 h5]
  have "matchBoardConfigurationAndSetup ?d (Some [config_a9])
        = Inl (FragmentIDMismatch (setup_name setup_a) (cfg_fragmentID config_a9)
                 (setup_fragmentID setup_a))"
    by blast
  with h1 h3 h4 h5 show ?thesis by (simp add: example_defs)
qed

text \<open>
  The same board a behind a board x that has no board configuration: the error is
  "No DAQ configuration found" for x, not the mismatch of a.
\<close>

theorem earlier_board_fails_first:
  "setup_a \<in> set [setup_x, setup_a]
   \<and> find (\<lambda>c. boardName c = setup_name setup_a) (boards (Some [config_a9])) = Some config_a9
   \<and> hasFragmentID setup_a
   \<and> setup_fragmentID setup_a \<noteq> cfg_fragmentID config_a9
   \<and> matchBoardConfigurationAndSetup
        (tool0\<lparr> fPMTconfigTag := Some ''pmtconfig'', fBoardSetup := [setup_x, setup_a] \<rparr>)
        (Some [config_a9])
      = Inl (NoDAQConfiguration ''x'')"
  by (simp add: matching_defs example_defs)

subsection \<open>Boards without a fragment ID\<close>

lemma records_without_configuration:
  assumes "\<not> hasPMTconfiguration d"
  shows "set (concat (map (\<lambda>s. fst (projr (matchBoard d pc s))) ss))
       = (\<lambda>s. \<lparr> fragmentID = setup_fragmentID s, board_setup = Some s, board_config = None,
                 facts = \<lparr> preTriggerTime = 0 \<rparr> \<rparr>) ` {s \<in> set ss. hasFragmentID s}"
  by (induction ss) (auto simp: matchBoard_without_configuration[OF assms])

text \<open>
  C9 (amended). When no PMT configuration is in use (no \<^verbatim>\<open>PMTconfigTag\<close>),
  \<open>matchBoardConfigurationAndSetup\<close> raises no error; it prints one warning for every
  board setup, naming the board, and for a board setup without \<^verbatim>\<open>FragmentID\<close> it creates no
  record. When a PMT configuration is in use, \<^verbatim>\<open>RequireKnownBoards\<close> and
  \<^verbatim>\<open>RequireBoardConfig\<close> are both set and the configuration has no board of the name of a
  board setup, the lookup of that board throws "No DAQ configuration found" and no
  database is returned.
\<close>

theorem unresolvable_board_skipped:
  "(\<not> hasPMTconfiguration d \<longrightarrow>
      (\<exists>db. matchBoardConfigurationAndSetup d PMTconfig
               = Inr (db, map (\<lambda>s. if hasFragmentID s
                                    then NoConfigurationInformation (setup_name s)
                                    else NoFragmentIDAssociation (setup_name s))
                              (fBoardSetup d))
            \<and> (\<forall>s\<in>set (fBoardSetup d). \<not> hasFragmentID s
                  \<longrightarrow> (\<forall>b\<in>set db. board_setup b \<noteq> Some s))))
   \<and> (hasPMTconfiguration d \<and> fRequireKnownBoards d \<and> fRequireBoardConfig d
        \<and> s \<in> set (fBoardSetup d)
        \<and> find (\<lambda>c. boardName c = setup_name s) (boards PMTconfig) = None \<longrightarrow>
      matchBoard d PMTconfig s = Inl (NoDAQConfiguration (setup_name s))
      \<and> (\<exists>e. matchBoardConfigurationAndSetup d PMTconfig = Inl e))"
proof (intro conjI impI)
  assume nc: "\<not> hasPMTconfiguration d"
  let ?db = "BoardInfoLookup
               (concat (map (\<lambda>s. fst (projr (matchBoard d PMTconfig s))) (fBoardSetup d)))"
  have ok: "\<forall>s\<in>set (fBoardSetup d). \<not> isl (matchBoard d PMTconfig s)"
    by (simp add: matchBoard_without_configuration[OF nc])
  have msgs: "concat (map (\<lambda>s. snd (projr (matchBoard d PMTconfig s))) ss)
              = map (\<lambda>s. if hasFragmentID s then NoConfigurationInformation (setup_name s)
                          else NoFragmentIDAssociation (setup_name s)) ss" for ss
    by (induction ss) (simp_all add: matchBoard_without_configuration[OF nc])
  have run: "matchBoardConfigurationAndSetup d PMTconfig
             = Inr (?db, map (\<lambda>s. if hasFragmentID s
                                    then NoConfigurationInformation (setup_name s)
                                    else NoFragmentIDAssociation (setup_name s))
                              (fBoardSetup d))"
    using matchBoardConfigurationAndSetup_ok[OF ok] by (simp add: msgs)
  have none: "\<forall>s\<in>set (fBoardSetup d). \<not> hasFragmentID s
                \<longrightarrow> (\<forall>b\<in>set ?db. board_setup b \<noteq> Some s)"
    using records_without_configuration[OF nc, of PMTconfig "fBoardSetup d"]
      set_BoardInfoLookup[of "concat (map (\<lambda>s. fst (projr (matchBoard d PMTconfig s)))
                                          (fBoardSetup d))"]
    by auto
  from run none
  show "\<exists>db. matchBoardConfigurationAndSetup d PMTconfig
               = Inr (db, map (\<lambda>s. if hasFragmentID s
                                    then NoConfigurationInformation (setup_name s)
                                    else NoFragmentIDAssociation (setup_name s))
                              (fBoardSetup d))
            \<and> (\<forall>s\<in>set (fBoardSetup d). \<not> hasFragmentID s
                  \<longrightarrow> (\<forall>b\<in>set db. board_setup b \<noteq> Some s))"
    by blast
next
  assume h: "hasPMTconfiguration d \<and> fRequireKnownBoards d \<and> fRequireBoardConfig d
        \<and> s \<in> set (fBoardSetup d)
        \<and> find (\<lambda>c. boardName c = setup_name s) (boards PMTconfig) = None"
  then have has: "hasPMTconfiguration d" by simp
  show mb: "matchBoard d PMTconfig s = Inl (NoDAQConfiguration (setup_name s))"
    using h by (simp add: matchBoard_with_configuration[OF has])
  then have "isl (matchBoard d PMTconfig s)" by simp
  with h show "\<exists>e. matchBoardConfigurationAndSetup d PMTconfig = Inl e"
    using matchBoardConfigurationAndSetup_fails by blast
qed

text \<open>
  Without a PMT configuration, the setups a (fragment ID 5) and x (none) give one record
  and two warnings; with a PMT configuration that lacks x and both flags set, the lookup
  of x throws.
\<close>

theorem unresolvable_board_skipped_witness:
  "\<not> hasPMTconfiguration (tool0\<lparr> fBoardSetup := [setup_a, setup_x] \<rparr>)
   \<and> \<not> hasFragmentID setup_x
   \<and> matchBoardConfigurationAndSetup (tool0\<lparr> fBoardSetup := [setup_a, setup_x] \<rparr>) None
      = Inr ([\<lparr> fragmentID = 5, board_setup = Some setup_a, board_config = None,
                 facts = \<lparr> preTriggerTime = 0 \<rparr> \<rparr>],
             [NoConfigurationInformation ''a'', NoFragmentIDAssociation ''x''])
   \<and> hasPMTconfiguration (tool0\<lparr> fPMTconfigTag := Some ''pmtconfig'', fBoardSetup := [setup_x] \<rparr>)
   \<and> fRequireKnownBoards (tool0\<lparr> fPMTconfigTag := Some ''pmtconfig'', fBoardSetup := [setup_x] \<rparr>)
   \<and> fRequireBoardConfig (tool0\<lparr> fPMTconfigTag := Some ''pmtconfig'', fBoardSetup := [setup_x] \<rparr>)
   \<and> find (\<lambda>c. boardName c = setup_name setup_x) (boards (Some [config_a])) = None
   \<and> matchBoard (tool0\<lparr> fPMTconfigTag := Some ''pmtconfig'', fBoardSetup := [setup_x] \<rparr>)
        (Some [config_a]) setup_x
      = Inl (NoDAQConfiguration ''x'')"
proof -
  let ?d = "tool0\<lparr> fBoardSetup := [setup_a, setup_x] \<rparr>"
  let ?t = "tool0\<lparr> fPMTconfigTag := Some ''pmtconfig'', fBoardSetup := [setup_x] \<rparr>"
  have h1: "\<not> hasPMTconfiguration ?d" by (simp add: hasPMTconfiguration_def example_defs)
  have hx: "\<not> hasFragmentID setup_x" by (simp add: hasFragmentID_def example_defs)
  have ha: "hasFragmentID setup_a" by (simp add: hasFragmentID_def NoFragmentID_def example_defs)
  have h2: "hasPMTconfiguration ?t \<and> fRequireKnownBoards ?t \<and> fRequireBoardConfig ?t
        \<and> setup_x \<in> set (fBoardSetup ?t)
        \<and> find (\<lambda>c. boardName c = setup_name setup_x) (boards (Some [config_a])) = None"
    by (simp add: hasPMTconfiguration_def boards_def example_defs)
  from unresolvable_board_skipped[of ?d None setup_x] h1
  obtain db where db: "matchBoardConfigurationAndSetup ?d None
               = Inr (db, map (\<lambda>s. if hasFragmentID s
                                    then NoConfigurationInformation (setup_name s)
                                    else NoFragmentIDAssociation (setup_name s))
                              (fBoardSetup ?d))"
    by blast
  have run: "matchBoardConfigurationAndSetup ?d None
      = Inr ([\<lparr> fragmentID = 5, board_setup = Some setup_a, board_config = None,
                 facts = \<lparr> preTriggerTime = 0 \<rparr> \<rparr>],
             [NoConfigurationInformation ''a'', NoFragmentIDAssociation ''x''])"
    by (simp add: matching_defs example_defs)
  from unresolvable_board_skipped[of ?t "Some [config_a]" setup_x] h2
  have "matchBoard ?t (Some [config_a]) setup_x = Inl (NoDAQConfiguration (setup_name setup_x))"
    by blast
  then have "matchBoard ?t (Some [config_a]) setup_x = Inl (NoDAQConfiguration ''x'')"
    by (simp add: setup_x_def)
  with h1 hx h2 run db show ?thesis by simp
qed

text \<open>
  A board setup x without \<^verbatim>\<open>FragmentID\<close> and a PMT configuration without a board x, with
  the default flags (\<^verbatim>\<open>RequireKnownBoards\<close> and \<^verbatim>\<open>RequireBoardConfig\<close> true): the merge ends
  with the error "No DAQ configuration found" for x.
\<close>

theorem unresolvable_board_fatal_with_configuration:
  "\<not> hasFragmentID setup_x
   \<and> find (\<lambda>c. boardName c = setup_name setup_x) (boards (Some [config_a])) = None
   \<and> matchBoardConfigurationAndSetup
        (tool0\<lparr> fPMTconfigTag := Some ''pmtconfig'', fBoardSetup := [setup_x] \<rparr>)
        (Some [config_a])
      = Inl (NoDAQConfiguration ''x'')"
  by (simp add: matching_defs example_defs)

subsection \<open>The lookup of a board that is not configured\<close>

text \<open>
  C6 (the code at the failing input). The PMT configuration has no board a. With
  \<^verbatim>\<open>RequireBoardConfig\<close> false and \<^verbatim>\<open>RequireKnownBoards\<close> true the merge throws
  "No DAQ configuration found" where the option asks for a warning; with
  \<^verbatim>\<open>RequireBoardConfig\<close> true and \<^verbatim>\<open>RequireKnownBoards\<close> false it goes through the null
  pointer where the option asks for a fatal error. \<open>findPMTconfig\<close> tests
  \<^verbatim>\<open>fRequireKnownBoards\<close>; \<^verbatim>\<open>fRequireBoardConfig\<close> is read nowhere in the merge.
\<close>

theorem missing_configuration_ignores_RequireBoardConfig:
  "matchBoardConfigurationAndSetup
     (tool0\<lparr> fRequireBoardConfig := False, fRequireKnownBoards := True,
             fPMTconfigTag := Some ''pmtconfig'', fBoardSetup := [setup_a] \<rparr>)
     (Some [config_x])
     = Inl (NoDAQConfiguration ''a'')
   \<and> matchBoardConfigurationAndSetup
     (tool0\<lparr> fRequireBoardConfig := True, fRequireKnownBoards := False,
             fPMTconfigTag := Some ''pmtconfig'', fBoardSetup := [setup_a] \<rparr>)
     (Some [config_x])
     = Inl NullDereference"
  by (simp add: matching_defs example_defs)

text \<open>
  C10 (the code at the failing input). A PMT configuration is in use, it has no board a,
  and \<^verbatim>\<open>RequireKnownBoards\<close> is false: \<open>findPMTconfig\<close> does not return a null
  configuration, it evaluates \<^verbatim>\<open>ppBoardConfig->second\<close> on the null result of the search.
\<close>

theorem findPMTconfig_null_dereference:
  "findPMTconfig
     (tool0\<lparr> fRequireKnownBoards := False, fPMTconfigTag := Some ''pmtconfig'',
             fBoardSetup := [setup_a] \<rparr>)
     (Some [config_x]) ''a''
     = Inl NullDereference"
  by (simp add: matching_defs example_defs)

subsection \<open>Decoding a fragment\<close>

text \<open>
  When every channel of the channel map lies inside the samples of the fragment, the
  loop appends one waveform per channel, and \<open>process_fragment\<close> returns the tool with
  these waveforms appended. An error of \<open>boardTimeStamp\<close> is the error of
  \<open>process_fragment\<close>. \<open>findBoardInfo\<close> returns only a record of the database that has
  the fragment ID asked for.
\<close>

lemma emitWaveforms_in_range:
  assumes "\<forall>(digitizerChannel, channelID)\<in>set vec. unat digitizerChannel * n + n \<le> length samples"
  shows "emitWaveforms ts n samples vec (Some ws)
       = Inr (Some (ws @ map (\<lambda>(digitizerChannel, channelID).
                               \<lparr> TimeStamp = ts, ChannelNumber = channelID,
                                 Waveform = take n (drop (unat digitizerChannel * n) samples) \<rparr>)
                             vec))"
  using assms
proof (induction vec arbitrary: ws)
  case Nil
  show ?case by simp
next
  case (Cons p vec)
  obtain dc ch where p: "p = (dc, ch)" by (cases p)
  from Cons.prems p have here: "unat dc * n + n \<le> length samples" by simp
  from Cons.prems have rest: "\<forall>(digitizerChannel, channelID)\<in>set vec.
      unat digitizerChannel * n + n \<le> length samples" by simp
  show ?case using here Cons.IH[OF rest] by (simp add: p Let_def)
qed

lemma process_fragment_emits:
  assumes "nChannels frag \<noteq> 0"
    and "fChannelMap d (ucast (frag_fragmentID frag) AND 0x0fff) = Some vec"
    and "boardTimeStamp d (ucast (frag_fragmentID frag)) = Inr (info, ts)"
    and "fOpDetWaveformCollection d = Some ws"
    and "\<forall>(digitizerChannel, channelID)\<in>set vec.
           unat digitizerChannel * unat (nSamplesPerChannel frag)
             + unat (nSamplesPerChannel frag) \<le> length (payload frag)"
  shows "process_fragment d frag
       = Inr (d\<lparr> fOpDetWaveformCollection :=
                    Some (ws @ map (\<lambda>(digitizerChannel, channelID).
                                     \<lparr> TimeStamp = ts, ChannelNumber = channelID,
                                       Waveform = take (unat (nSamplesPerChannel frag))
                                         (drop (unat digitizerChannel
                                                  * unat (nSamplesPerChannel frag))
                                               (payload frag)) \<rparr>)
                                   vec) \<rparr>, [])"
  using assms(1-4) emitWaveforms_in_range[OF assms(5), of ts ws]
  by (simp add: process_fragment_def Let_def)

lemma process_fragment_unknown_board:
  assumes "nChannels frag \<noteq> 0"
    and "fChannelMap d (ucast (frag_fragmentID frag) AND 0x0fff) = Some vec"
    and "boardTimeStamp d (ucast (frag_fragmentID frag)) = Inl e"
  shows "process_fragment d frag = Inl e"
  using assms by (simp add: process_fragment_def Let_def)

lemma findBoardInfo_Some:
  "findBoardInfo db fid = Some b \<Longrightarrow> b \<in> set db \<and> fragmentID b = fid"
  unfolding findBoardInfo_def by (rule binarySearch_Some)

lemma findBoardInfo_unknown:
  "fid \<notin> fragmentID ` set db \<Longrightarrow> findBoardInfo db fid = None"
  using findBoardInfo_Some[of db fid] by (cases "findBoardInfo db fid") auto

text \<open>
  \<open>to_string\<close> writes a number in decimal digits: read as a decimal numeral, the string is
  the number again. So different numbers have different strings.
\<close>

lemma digit_value:
  assumes "n < 10"
  shows "of_char (''0123456789'' ! n) - 48 = n"
proof -
  from assms have "n \<in> {0, 1, 2, 3, 4, 5, 6, 7, 8, 9}" by auto
  then show ?thesis by auto
qed

lemma to_string_decimal:
  "foldl (\<lambda>acc c. 10 * acc + (of_char c - 48)) 0 (to_string n) = n"
proof (induction n rule: to_string.induct)
  case (1 n)
  show ?case
  proof (cases "n < 10")
    case True
    then show ?thesis by (subst to_string.simps) (simp add: digit_value)
  next
    case False
    have "n mod 10 < 10" by simp
    then have d: "of_char (''0123456789'' ! (n mod 10)) - 48 = n mod 10" by (rule digit_value)
    from False "1.IH" have ih:
      "foldl (\<lambda>acc c. 10 * acc + (of_char c - 48)) 0 (to_string (n div 10)) = n div 10"
      by simp
    have "to_string n = to_string (n div 10) @ [''0123456789'' ! (n mod 10)]"
      using False by (subst to_string.simps) simp
    then show ?thesis using ih d by simp
  qed
qed

text \<open>
  C7. Let the fragment ID have no record in the board information database. If
  \<^verbatim>\<open>RequireKnownBoards\<close> is true, the time stamp reconstruction throws the exception that
  names the fragment ID, and \<open>process_fragment\<close> ends with it for every fragment of that
  ID whose board the channel map knows. If it is false, the reconstruction goes on with
  a trigger delay and a pre-trigger time of zero, so that the time stamp is the trigger
  time, and with the name "<ID=" followed by the fragment ID in decimal digits: the
  digits behind "<ID=", read as a decimal numeral, are the fragment ID, and the names of
  two fragment IDs are equal only if the IDs are.
\<close>

theorem unknown_board:
  assumes "fBoardInfoLookup d = Some db"
    and "fragment_id \<notin> fragmentID ` set db"
  shows "(fRequireKnownBoards d \<longrightarrow>
            boardTimeStamp d fragment_id
              = Inl (NoBoardInformation fragment_id (\<not> hasPMTconfiguration d))
          \<and> (\<forall>frag vec. ucast (frag_fragmentID frag) = fragment_id \<and> nChannels frag \<noteq> 0
                 \<and> fChannelMap d (fragment_id AND 0x0fff) = Some vec
               \<longrightarrow> process_fragment d frag
                     = Inl (NoBoardInformation fragment_id (\<not> hasPMTconfiguration d))))
       \<and> (\<not> fRequireKnownBoards d \<longrightarrow>
            boardTimeStamp d fragment_id
              = Inr (\<lparr> info_name = ''<ID='' @ to_string (unat fragment_id),
                       info_preTriggerTime = 0, PMTtriggerDelay = 0 \<rparr>,
                     TriggerTime d)
          \<and> foldl (\<lambda>acc c. 10 * acc + (of_char c - 48)) 0
               (drop 4 (info_name (fetchNeededBoardInfo None fragment_id)))
              = unat fragment_id
          \<and> (\<forall>other. info_name (fetchNeededBoardInfo None other)
                         = info_name (fetchNeededBoardInfo None fragment_id)
                 \<longrightarrow> other = fragment_id))"
proof -
  have none: "findBoardInfo db fragment_id = None"
    using assms(2) by (rule findBoardInfo_unknown)
  have fatal: "boardTimeStamp d fragment_id
              = Inl (NoBoardInformation fragment_id (\<not> hasPMTconfiguration d))"
    if "fRequireKnownBoards d"
    using that assms(1) none by (simp add: boardTimeStamp_def)
  have propagates: "process_fragment d frag
                     = Inl (NoBoardInformation fragment_id (\<not> hasPMTconfiguration d))"
    if "fRequireKnownBoards d" "ucast (frag_fragmentID frag) = fragment_id \<and> nChannels frag \<noteq> 0
                 \<and> fChannelMap d (fragment_id AND 0x0fff) = Some vec" for frag vec
    using process_fragment_unknown_board[of frag d vec] fatal[OF that(1)] that(2) by auto
  have degraded: "boardTimeStamp d fragment_id
              = Inr (\<lparr> info_name = ''<ID='' @ to_string (unat fragment_id),
                       info_preTriggerTime = 0, PMTtriggerDelay = 0 \<rparr>,
                     TriggerTime d)"
    if "\<not> fRequireKnownBoards d"
    using that assms(1) none by (simp add: boardTimeStamp_def fetchNeededBoardInfo_def Let_def)
  have digits: "foldl (\<lambda>acc c. 10 * acc + (of_char c - 48)) 0
               (drop 4 (info_name (fetchNeededBoardInfo None fragment_id)))
              = unat fragment_id"
  proof -
    have "drop 4 (info_name (fetchNeededBoardInfo None fragment_id))
          = to_string (unat fragment_id)"
      by (simp add: fetchNeededBoardInfo_def)
    then show ?thesis by (simp only: to_string_decimal)
  qed
  have names: "other = fragment_id"
    if "info_name (fetchNeededBoardInfo None other)
        = info_name (fetchNeededBoardInfo None fragment_id)" for other
  proof -
    from that have "to_string (unat other) = to_string (unat fragment_id)"
      by (simp add: fetchNeededBoardInfo_def)
    then have "unat other = unat fragment_id"
      by (metis to_string_decimal)
    then show ?thesis by (simp only: word_unat_eq_iff)
  qed
  from fatal propagates degraded digits names show ?thesis by blast
qed

text \<open>
  The database knows board a (fragment ID 5); the fragment has the ID 8194, which the
  channel map knows as board 2 (the low 12 bits).
\<close>

theorem unknown_board_witness:
  "fBoardInfoLookup (tool0\<lparr> fBoardInfoLookup := Some [board_a],
                            fChannelMap := [2 \<mapsto> [(0, 101), (1, 102)]] \<rparr>) = Some [board_a]
   \<and> 8194 \<notin> fragmentID ` set [board_a]
   \<and> fRequireKnownBoards (tool0\<lparr> fBoardInfoLookup := Some [board_a],
                                 fChannelMap := [2 \<mapsto> [(0, 101), (1, 102)]] \<rparr>)
   \<and> boardTimeStamp (tool0\<lparr> fBoardInfoLookup := Some [board_a],
                            fChannelMap := [2 \<mapsto> [(0, 101), (1, 102)]] \<rparr>) 8194
      = Inl (NoBoardInformation 8194 True)
   \<and> process_fragment (tool0\<lparr> fBoardInfoLookup := Some [board_a],
                              fChannelMap := [2 \<mapsto> [(0, 101), (1, 102)]] \<rparr>) fragment_unknown
      = Inl (NoBoardInformation 8194 True)
   \<and> \<not> fRequireKnownBoards (tool0\<lparr> fBoardInfoLookup := Some [board_a],
                                   fRequireKnownBoards := False \<rparr>)
   \<and> boardTimeStamp (tool0\<lparr> fBoardInfoLookup := Some [board_a],
                            fRequireKnownBoards := False \<rparr>) 8194
      = Inr (\<lparr> info_name = ''<ID=8194'', info_preTriggerTime = 0, PMTtriggerDelay = 0 \<rparr>,
             TriggerTime tool0)
   \<and> foldl (\<lambda>acc c. 10 * acc + (of_char c - 48)) 0 (drop 4 ''<ID=8194'') = (8194 :: nat)"
proof -
  let ?d = "tool0\<lparr> fBoardInfoLookup := Some [board_a],
                   fChannelMap := [2 \<mapsto> [(0, 101), (1, 102)]] \<rparr>"
  let ?t = "tool0\<lparr> fBoardInfoLookup := Some [board_a], fRequireKnownBoards := False \<rparr>"
  have h1: "fBoardInfoLookup ?d = Some [board_a]" by simp
  have h1': "fBoardInfoLookup ?t = Some [board_a]" by simp
  have h2: "8194 \<notin> fragmentID ` set [board_a]" by (simp add: board_a_def)
  have req: "fRequireKnownBoards ?d" by (simp add: tool0_def)
  have nreq: "\<not> fRequireKnownBoards ?t" by simp
  have frag: "ucast (frag_fragmentID fragment_unknown) = (8194::32 word)
              \<and> nChannels fragment_unknown \<noteq> 0
              \<and> fChannelMap ?d (8194 AND 0x0fff) = Some [(0, 101), (1, 102)]"
    by (simp add: fragment_unknown_def)
  have tag: "hasPMTconfiguration ?d = False" by (simp add: hasPMTconfiguration_def tool0_def)
  have name: "''<ID='' @ to_string (unat (8194::32 word)) = ''<ID=8194''"
    by (simp add: to_string.simps)
  have info: "info_name (fetchNeededBoardInfo None (8194::32 word)) = ''<ID=8194''"
    using name by (simp add: fetchNeededBoardInfo_def)
  have tt: "TriggerTime ?t = TriggerTime tool0" by simp
  from unknown_board[OF h1 h2] req frag
  have a: "boardTimeStamp ?d 8194 = Inl (NoBoardInformation 8194 (\<not> hasPMTconfiguration ?d))"
    and b: "process_fragment ?d fragment_unknown
            = Inl (NoBoardInformation 8194 (\<not> hasPMTconfiguration ?d))"
    by blast+
  from unknown_board[OF h1' h2] nreq
  have c: "boardTimeStamp ?t 8194
           = Inr (\<lparr> info_name = ''<ID='' @ to_string (unat (8194::32 word)),
                    info_preTriggerTime = 0, PMTtriggerDelay = 0 \<rparr>, TriggerTime ?t)"
    and e: "foldl (\<lambda>acc c. 10 * acc + (of_char c - 48)) 0
               (drop 4 (info_name (fetchNeededBoardInfo None (8194::32 word))))
              = unat (8194::32 word)"
    by blast+
  from e have e': "foldl (\<lambda>acc c. 10 * acc + (of_char c - 48)) 0 (drop 4 ''<ID=8194'')
                   = (8194 :: nat)"
    unfolding info by simp
  from a b c h1 h2 req nreq e' show ?thesis unfolding tag name tt by simp
qed

text \<open>
  C2 (amended). The number of samples per channel is
  \<open>2 * (eventSize - evt_header_size_quad_bytes) div nChannels\<close> in unsigned 32-bit
  arithmetic, the quotient rounded down. \<open>process_fragment\<close> makes no check of the
  remainder: whether the division is exact or not, a fragment with a known board whose
  channels lie inside its samples is decoded without error, one waveform of that many
  samples for every channel of the channel map.
\<close>

theorem samples_per_channel_rounded_down:
  "nSamplesPerChannel frag
     = (2 * (eventSize frag - evt_header_size_quad_bytes)) div nChannels frag
   \<and> unat (nSamplesPerChannel frag)
     = unat (2 * (eventSize frag - evt_header_size_quad_bytes)) div unat (nChannels frag)
   \<and> (nChannels frag \<noteq> 0
      \<and> fChannelMap d (ucast (frag_fragmentID frag) AND 0x0fff) = Some vec
      \<and> boardTimeStamp d (ucast (frag_fragmentID frag)) = Inr (info, ts)
      \<and> fOpDetWaveformCollection d = Some ws
      \<and> (\<forall>(digitizerChannel, channelID)\<in>set vec.
            unat digitizerChannel * unat (nSamplesPerChannel frag)
              + unat (nSamplesPerChannel frag) \<le> length (payload frag))
      \<longrightarrow> process_fragment d frag
          = Inr (d\<lparr> fOpDetWaveformCollection :=
                       Some (ws @ map (\<lambda>(digitizerChannel, channelID).
                                        \<lparr> TimeStamp = ts, ChannelNumber = channelID,
                                          Waveform = take (unat (nSamplesPerChannel frag))
                                            (drop (unat digitizerChannel
                                                     * unat (nSamplesPerChannel frag))
                                                  (payload frag)) \<rparr>)
                                      vec) \<rparr>, []))"
proof (intro conjI impI)
  show "nSamplesPerChannel frag
     = (2 * (eventSize frag - evt_header_size_quad_bytes)) div nChannels frag"
    by (simp add: nSamplesPerChannel_def data_size_double_bytes_def)
  then show "unat (nSamplesPerChannel frag)
     = unat (2 * (eventSize frag - evt_header_size_quad_bytes)) div unat (nChannels frag)"
    by (simp add: unat_div)
next
  assume h: "nChannels frag \<noteq> 0
      \<and> fChannelMap d (ucast (frag_fragmentID frag) AND 0x0fff) = Some vec
      \<and> boardTimeStamp d (ucast (frag_fragmentID frag)) = Inr (info, ts)
      \<and> fOpDetWaveformCollection d = Some ws
      \<and> (\<forall>(digitizerChannel, channelID)\<in>set vec.
            unat digitizerChannel * unat (nSamplesPerChannel frag)
              + unat (nSamplesPerChannel frag) \<le> length (payload frag))"
  then show "process_fragment d frag
          = Inr (d\<lparr> fOpDetWaveformCollection :=
                       Some (ws @ map (\<lambda>(digitizerChannel, channelID).
                                        \<lparr> TimeStamp = ts, ChannelNumber = channelID,
                                          Waveform = take (unat (nSamplesPerChannel frag))
                                            (drop (unat digitizerChannel
                                                     * unat (nSamplesPerChannel frag))
                                                  (payload frag)) \<rparr>)
                                      vec) \<rparr>, [])"
    using process_fragment_emits[of frag d vec info ts ws] by blast
qed

text \<open>
  Six samples for four channels, of which the channel map has the channels 0 and 3: one
  sample each.
\<close>

theorem samples_per_channel_rounded_down_witness:
  "nChannels fragment_uneven \<noteq> 0
   \<and> unat (nSamplesPerChannel fragment_uneven) = 1
   \<and> boardTimeStamp (tool0\<lparr> fBoardInfoLookup := Some [board_a],
                            fChannelMap := [5 \<mapsto> [(0, 10), (3, 13)]] \<rparr>) 5
      = Inr (\<lparr> info_name = ''a'', info_preTriggerTime = 2000, PMTtriggerDelay = 43 \<rparr>, - 1043)
   \<and> process_fragment (tool0\<lparr> fBoardInfoLookup := Some [board_a],
                              fChannelMap := [5 \<mapsto> [(0, 10), (3, 13)]] \<rparr>) fragment_uneven
      = Inr (tool0\<lparr> fBoardInfoLookup := Some [board_a],
                    fChannelMap := [5 \<mapsto> [(0, 10), (3, 13)]],
                    fOpDetWaveformCollection :=
                      Some [\<lparr> TimeStamp = - 1043, ChannelNumber = 10, Waveform = [1] \<rparr>,
                            \<lparr> TimeStamp = - 1043, ChannelNumber = 13, Waveform = [4] \<rparr>] \<rparr>, [])"
proof -
  let ?d = "tool0\<lparr> fBoardInfoLookup := Some [board_a],
                   fChannelMap := [5 \<mapsto> [(0, 10), (3, 13)]] \<rparr>"
  let ?vec = "[(0, 10), (3, 13)] :: (32 word \<times> 32 word) list"
  let ?info = "\<lparr> info_name = ''a'', info_preTriggerTime = 2000, PMTtriggerDelay = 43 \<rparr>"
  have n: "unat (nSamplesPerChannel fragment_uneven) = 1"
    by (simp add: decoding_defs fragment_defs)
  have ts: "boardTimeStamp ?d 5 = Inr (?info, - 1043)"
    by (simp add: decoding_defs fragment_defs example_defs)
  have h: "nChannels fragment_uneven \<noteq> 0
      \<and> fChannelMap ?d (ucast (frag_fragmentID fragment_uneven) AND 0x0fff)
          = Some ?vec
      \<and> boardTimeStamp ?d (ucast (frag_fragmentID fragment_uneven)) = Inr (?info, - 1043)
      \<and> fOpDetWaveformCollection ?d = Some []
      \<and> (\<forall>(digitizerChannel, channelID)\<in>set ?vec.
            unat digitizerChannel * unat (nSamplesPerChannel fragment_uneven)
              + unat (nSamplesPerChannel fragment_uneven) \<le> length (payload fragment_uneven))"
    using ts by (simp add: n) (simp add: fragment_defs tool0_def)
  have "process_fragment ?d fragment_uneven
          = Inr (?d\<lparr> fOpDetWaveformCollection :=
                       Some ([] @ map (\<lambda>(digitizerChannel, channelID).
                                        \<lparr> TimeStamp = - 1043, ChannelNumber = channelID,
                                          Waveform = take (unat (nSamplesPerChannel fragment_uneven))
                                            (drop (unat digitizerChannel
                                                     * unat (nSamplesPerChannel fragment_uneven))
                                                  (payload fragment_uneven)) \<rparr>)
                                      ?vec) \<rparr>, [])"
    by (rule samples_per_channel_rounded_down
              [THEN conjunct2, THEN conjunct2, THEN mp, OF h])
  then have "process_fragment ?d fragment_uneven
      = Inr (?d\<lparr> fOpDetWaveformCollection :=
                      Some [\<lparr> TimeStamp = - 1043, ChannelNumber = 10, Waveform = [1] \<rparr>,
                            \<lparr> TimeStamp = - 1043, ChannelNumber = 13, Waveform = [4] \<rparr>] \<rparr>, [])"
    by (simp add: n) (simp add: fragment_defs)
  with n ts show ?thesis by (simp add: fragment_defs)
qed

text \<open>
  Six samples for four channels: no error, four waveforms of one sample; the samples 5
  and 6 are dropped.
\<close>

theorem uneven_payload_decoded:
  "unat (data_size_double_bytes fragment_uneven) mod unat (nChannels fragment_uneven) \<noteq> 0
   \<and> process_fragment
        (tool0\<lparr> fBoardInfoLookup := Some [board_a],
                fChannelMap := [5 \<mapsto> [(0, 10), (1, 11), (2, 12), (3, 13)]] \<rparr>)
        fragment_uneven
      = Inr (tool0\<lparr> fBoardInfoLookup := Some [board_a],
                    fChannelMap := [5 \<mapsto> [(0, 10), (1, 11), (2, 12), (3, 13)]],
                    fOpDetWaveformCollection :=
                      Some [\<lparr> TimeStamp = - 1043, ChannelNumber = 10, Waveform = [1] \<rparr>,
                            \<lparr> TimeStamp = - 1043, ChannelNumber = 11, Waveform = [2] \<rparr>,
                            \<lparr> TimeStamp = - 1043, ChannelNumber = 12, Waveform = [3] \<rparr>,
                            \<lparr> TimeStamp = - 1043, ChannelNumber = 13, Waveform = [4] \<rparr>] \<rparr>,
             [])"
  by (simp add: decoding_defs fragment_defs example_defs Let_def)

subsection \<open>Sorting the waveforms\<close>

text \<open>
  A stable sort by channel number keeps the promise of \<^verbatim>\<open>std::sort\<close> for the comparison of
  \<open>outputDataProducts\<close>. Where the channel numbers of the waveforms are pairwise distinct,
  every procedure that keeps the promise returns the same sequence, for every order of
  the waveforms.
\<close>

lemma sorted_by_channel:
  "sorted_wrt (\<lambda>a b. \<not> channel_less b a) ws = sorted (map ChannelNumber ws)"
  by (simp add: sorted_map channel_less_def not_less)

lemma sort_key_is_std_sort: "is_std_sort (\<lambda>cmp. sort_key ChannelNumber) channel_less"
  unfolding is_std_sort_def sorted_by_channel by simp

lemma std_sort_distinct_channels:
  assumes "is_std_sort std_sort channel_less" "distinct (map ChannelNumber ws)"
    and "mset ws' = mset ws"
  shows "std_sort channel_less ws' = sort_key ChannelNumber ws"
proof -
  let ?out = "std_sort channel_less ws'"
  have m: "mset ?out = mset ws" using assms(1,3) by (simp add: is_std_sort_def)
  have s: "sorted (map ChannelNumber ?out)"
    using assms(1) by (simp add: is_std_sort_def sorted_by_channel)
  have "mset (map ChannelNumber ?out) = mset (map ChannelNumber ws)" using m by simp
  then have d: "distinct (map ChannelNumber ?out)"
    using assms(2) by (metis mset_eq_imp_distinct_iff)
  have st: "set ?out = set ws" using m by (rule mset_eq_setD)
  show ?thesis
  proof (rule map_sorted_distinct_set_unique[where f = ChannelNumber])
    show "inj_on ChannelNumber (set ?out \<union> set (sort_key ChannelNumber ws))"
      using assms(2) st by (simp add: distinct_map)
    show "sorted (map ChannelNumber ?out)" by (rule s)
    show "distinct (map ChannelNumber ?out)" by (rule d)
    show "sorted (map ChannelNumber (sort_key ChannelNumber ws))" by simp
    show "distinct (map ChannelNumber (sort_key ChannelNumber ws))"
      using assms(2) by (metis mset_eq_imp_distinct_iff mset_map mset_sort)
    show "set ?out = set (sort_key ChannelNumber ws)" using st by simp
  qed
qed

text \<open>
  C8 (amended). A fragment with 2 channels, 4 samples per channel, the samples
  1, ..., 8, the channel map 0 to 101 and 1 to 102 and the time stamp T appends exactly
  the waveforms (T, 101, [1, 2, 3, 4]) and (T, 102, [5, 6, 7, 8]). \<open>outputDataProducts\<close>
  returns the waveforms of the collection, each as often as emitted, sorted by channel
  number ascending, and leaves the collection empty (null); when the channel numbers are
  pairwise distinct the result does not depend on the order of emission. That holds for
  every \<^verbatim>\<open>std::sort\<close> that keeps the promise of the C++ standard. The sort is not stable:
  the order of waveforms of one channel is whatever \<^verbatim>\<open>std::sort\<close> makes it.
\<close>

theorem emit_and_finalize:
  "(nChannels frag = 2 \<and> eventSize frag = evt_header_size_quad_bytes + 4
      \<and> payload frag = [1, 2, 3, 4, 5, 6, 7, 8]
      \<and> fChannelMap d (ucast (frag_fragmentID frag) AND 0x0fff) = Some [(0, 101), (1, 102)]
      \<and> boardTimeStamp d (ucast (frag_fragmentID frag)) = Inr (info, T)
      \<and> fOpDetWaveformCollection d = Some ws
    \<longrightarrow> unat (nSamplesPerChannel frag) = 4
      \<and> process_fragment d frag
          = Inr (d\<lparr> fOpDetWaveformCollection :=
                      Some (ws @ [\<lparr> TimeStamp = T, ChannelNumber = 101,
                                     Waveform = [1, 2, 3, 4] \<rparr>,
                                   \<lparr> TimeStamp = T, ChannelNumber = 102,
                                     Waveform = [5, 6, 7, 8] \<rparr>]) \<rparr>, []))
   \<and> (is_std_sort std_sort channel_less \<and> fOpDetWaveformCollection d' = Some ws'
    \<longrightarrow> (\<exists>out. outputDataProducts std_sort d'
                  = Inr (out, d'\<lparr> fOpDetWaveformCollection := None \<rparr>)
              \<and> mset out = mset ws'
              \<and> sorted (map ChannelNumber out)
              \<and> (distinct (map ChannelNumber ws')
                 \<longrightarrow> (\<forall>emitted. mset emitted = mset ws'
                        \<longrightarrow> std_sort channel_less emitted = out))))"
proof (intro conjI impI)
  assume h: "nChannels frag = 2 \<and> eventSize frag = evt_header_size_quad_bytes + 4
      \<and> payload frag = [1, 2, 3, 4, 5, 6, 7, 8]
      \<and> fChannelMap d (ucast (frag_fragmentID frag) AND 0x0fff) = Some [(0, 101), (1, 102)]
      \<and> boardTimeStamp d (ucast (frag_fragmentID frag)) = Inr (info, T)
      \<and> fOpDetWaveformCollection d = Some ws"
  then show n: "unat (nSamplesPerChannel frag) = 4"
    by (simp add: nSamplesPerChannel_def data_size_double_bytes_def)
  have nz: "nChannels frag \<noteq> 0" using h by simp
  have rng: "\<forall>(digitizerChannel, channelID)\<in>set [(0 :: 32 word, 101 :: 32 word), (1, 102)].
           unat digitizerChannel * unat (nSamplesPerChannel frag)
             + unat (nSamplesPerChannel frag) \<le> length (payload frag)"
    using h by (simp add: n)
  from h have cm: "fChannelMap d (ucast (frag_fragmentID frag) AND 0x0fff)
                   = Some [(0, 101), (1, 102)]"
    and ts: "boardTimeStamp d (ucast (frag_fragmentID frag)) = Inr (info, T)"
    and coll: "fOpDetWaveformCollection d = Some ws" by simp_all
  show "process_fragment d frag
          = Inr (d\<lparr> fOpDetWaveformCollection :=
                      Some (ws @ [\<lparr> TimeStamp = T, ChannelNumber = 101,
                                     Waveform = [1, 2, 3, 4] \<rparr>,
                                   \<lparr> TimeStamp = T, ChannelNumber = 102,
                                     Waveform = [5, 6, 7, 8] \<rparr>]) \<rparr>, [])"
    unfolding process_fragment_emits[OF nz cm ts coll rng] using h by (simp add: n)
next
  assume h: "is_std_sort std_sort channel_less \<and> fOpDetWaveformCollection d' = Some ws'"
  let ?out = "std_sort channel_less ws'"
  have run: "outputDataProducts std_sort d' = Inr (?out, d'\<lparr> fOpDetWaveformCollection := None \<rparr>)"
    using h by (simp add: outputDataProducts_def)
  have m: "mset ?out = mset ws'" using h by (simp add: is_std_sort_def)
  have s: "sorted (map ChannelNumber ?out)"
    using h by (simp add: is_std_sort_def sorted_by_channel)
  have u: "std_sort channel_less emitted = ?out"
    if "distinct (map ChannelNumber ws')" "mset emitted = mset ws'" for emitted
    using std_sort_distinct_channels[of std_sort ws' emitted]
      std_sort_distinct_channels[of std_sort ws' ws'] h that by simp
  from run m s u
  show "\<exists>out. outputDataProducts std_sort d'
                  = Inr (out, d'\<lparr> fOpDetWaveformCollection := None \<rparr>)
              \<and> mset out = mset ws'
              \<and> sorted (map ChannelNumber out)
              \<and> (distinct (map ChannelNumber ws')
                 \<longrightarrow> (\<forall>emitted. mset emitted = mset ws'
                        \<longrightarrow> std_sort channel_less emitted = out))"
    by blast
qed

text \<open>
  The fragment of board a, and the hand-over of its two waveforms emitted in the other
  order, with a stable sort in the place of \<^verbatim>\<open>std::sort\<close>.
\<close>

theorem emit_and_finalize_witness:
  "nChannels fragment_even = 2
   \<and> eventSize fragment_even = evt_header_size_quad_bytes + 4
   \<and> payload fragment_even = [1, 2, 3, 4, 5, 6, 7, 8]
   \<and> boardTimeStamp (tool0\<lparr> fBoardInfoLookup := Some [board_a],
                            fChannelMap := [5 \<mapsto> [(0, 101), (1, 102)]] \<rparr>) 5
      = Inr (\<lparr> info_name = ''a'', info_preTriggerTime = 2000, PMTtriggerDelay = 43 \<rparr>, - 1043)
   \<and> process_fragment (tool0\<lparr> fBoardInfoLookup := Some [board_a],
                              fChannelMap := [5 \<mapsto> [(0, 101), (1, 102)]] \<rparr>) fragment_even
      = Inr (tool0\<lparr> fBoardInfoLookup := Some [board_a],
                    fChannelMap := [5 \<mapsto> [(0, 101), (1, 102)]],
                    fOpDetWaveformCollection :=
                      Some [\<lparr> TimeStamp = - 1043, ChannelNumber = 101,
                               Waveform = [1, 2, 3, 4] \<rparr>,
                            \<lparr> TimeStamp = - 1043, ChannelNumber = 102,
                               Waveform = [5, 6, 7, 8] \<rparr>] \<rparr>, [])
   \<and> is_std_sort (\<lambda>cmp. sort_key ChannelNumber) channel_less
   \<and> outputDataProducts (\<lambda>cmp. sort_key ChannelNumber)
        (tool0\<lparr> fOpDetWaveformCollection :=
                  Some [\<lparr> TimeStamp = - 1043, ChannelNumber = 102, Waveform = [5, 6, 7, 8] \<rparr>,
                        \<lparr> TimeStamp = - 1043, ChannelNumber = 101, Waveform = [1, 2, 3, 4] \<rparr>] \<rparr>)
      = Inr ([\<lparr> TimeStamp = - 1043, ChannelNumber = 101, Waveform = [1, 2, 3, 4] \<rparr>,
              \<lparr> TimeStamp = - 1043, ChannelNumber = 102, Waveform = [5, 6, 7, 8] \<rparr>],
             tool0\<lparr> fOpDetWaveformCollection := None \<rparr>)
   \<and> sort_key ChannelNumber
        [\<lparr> TimeStamp = - 1043, ChannelNumber = 101, Waveform = [1, 2, 3, 4] \<rparr>,
         \<lparr> TimeStamp = - 1043, ChannelNumber = 102, Waveform = [5, 6, 7, 8] \<rparr>]
      = [\<lparr> TimeStamp = - 1043, ChannelNumber = 101, Waveform = [1, 2, 3, 4] \<rparr>,
         \<lparr> TimeStamp = - 1043, ChannelNumber = 102, Waveform = [5, 6, 7, 8] \<rparr>]"
proof -
  let ?d = "tool0\<lparr> fBoardInfoLookup := Some [board_a],
                   fChannelMap := [5 \<mapsto> [(0, 101), (1, 102)]] \<rparr>"
  let ?info = "\<lparr> info_name = ''a'', info_preTriggerTime = 2000, PMTtriggerDelay = 43 \<rparr>"
  let ?w1 = "\<lparr> TimeStamp = - 1043, ChannelNumber = 101, Waveform = [1, 2, 3, 4] \<rparr>"
  let ?w2 = "\<lparr> TimeStamp = - 1043, ChannelNumber = 102, Waveform = [5, 6, 7, 8] \<rparr>"
  let ?d' = "tool0\<lparr> fOpDetWaveformCollection := Some [?w2, ?w1] \<rparr>"
  let ?sort = "(\<lambda>cmp. sort_key ChannelNumber)
               :: (OpDetWaveform \<Rightarrow> OpDetWaveform \<Rightarrow> bool) \<Rightarrow> OpDetWaveform list
                    \<Rightarrow> OpDetWaveform list"
  note T = emit_and_finalize[of fragment_even ?d ?info "- 1043" "[]" ?sort ?d' "[?w2, ?w1]"]
  have ts: "boardTimeStamp ?d 5 = Inr (?info, - 1043)"
    by (simp add: decoding_defs fragment_defs example_defs)
  have h1: "nChannels fragment_even = 2
      \<and> eventSize fragment_even = evt_header_size_quad_bytes + 4
      \<and> payload fragment_even = [1, 2, 3, 4, 5, 6, 7, 8]
      \<and> fChannelMap ?d (ucast (frag_fragmentID fragment_even) AND 0x0fff)
          = Some [(0, 101), (1, 102)]
      \<and> boardTimeStamp ?d (ucast (frag_fragmentID fragment_even)) = Inr (?info, - 1043)
      \<and> fOpDetWaveformCollection ?d = Some []"
    using ts by (simp add: fragment_defs evt_header_size_quad_bytes_def tool0_def)
  have std: "is_std_sort ?sort channel_less"
    by (rule sort_key_is_std_sort)
  have h2: "is_std_sort ?sort channel_less
            \<and> fOpDetWaveformCollection ?d' = Some [?w2, ?w1]"
    using std by simp
  from T[THEN conjunct1, THEN mp, OF h1]
  have emit: "process_fragment ?d fragment_even
              = Inr (?d\<lparr> fOpDetWaveformCollection := Some [?w1, ?w2] \<rparr>, [])"
    by simp
  from T[THEN conjunct2, THEN mp, OF h2]
  obtain out where out: "outputDataProducts ?sort ?d'
                  = Inr (out, ?d'\<lparr> fOpDetWaveformCollection := None \<rparr>)"
    and uniq: "distinct (map ChannelNumber [?w2, ?w1])
                 \<longrightarrow> (\<forall>emitted. mset emitted = mset [?w2, ?w1]
                        \<longrightarrow> ?sort channel_less emitted = out)"
    by blast
  have o: "out = [?w1, ?w2]"
    using out by (simp add: outputDataProducts_def)
  have "distinct (map ChannelNumber [?w2, ?w1])" by simp
  moreover have "mset [?w1, ?w2] = mset [?w2, ?w1]" by simp
  ultimately have other: "?sort channel_less [?w1, ?w2] = [?w1, ?w2]"
    using uniq o by blast
  from h1 ts emit std out o other show ?thesis by simp
qed

text \<open>
  Seventeen waveforms of channel 101, as seventeen fragments of one board give them, in
  the order of their emission. The sort of the GNU C++ library takes the waveform in the
  middle as pivot and swaps the others around it: the waveforms come out in the order
  8, 16, 15, ..., 9, 0, 7, 6, ..., 1, while a stable sort keeps the order 0, 1, ..., 16.
\<close>

theorem finalize_not_stable:
  "libstdcxx_sort channel_less
     (map channel_101 [0, 1, 2, 3, 4, 5, 6, 7, 8, 9, 10, 11, 12, 13, 14, 15, 16])
     = Some (map channel_101 [8, 16, 15, 14, 13, 12, 11, 10, 9, 0, 7, 6, 5, 4, 3, 2, 1])
   \<and> outputDataProducts (\<lambda>cmp ws. the (libstdcxx_sort cmp ws))
        (tool0\<lparr> fOpDetWaveformCollection :=
                  Some (map channel_101
                          [0, 1, 2, 3, 4, 5, 6, 7, 8, 9, 10, 11, 12, 13, 14, 15, 16]) \<rparr>)
     = Inr (map channel_101 [8, 16, 15, 14, 13, 12, 11, 10, 9, 0, 7, 6, 5, 4, 3, 2, 1],
            tool0\<lparr> fOpDetWaveformCollection := None \<rparr>)
   \<and> sort_key ChannelNumber
        (map channel_101 [0, 1, 2, 3, 4, 5, 6, 7, 8, 9, 10, 11, 12, 13, 14, 15, 16])
     = map channel_101 [0, 1, 2, 3, 4, 5, 6, 7, 8, 9, 10, 11, 12, 13, 14, 15, 16]
   \<and> map channel_101 [8, 16, 15, 14, 13, 12, 11, 10, 9, 0, 7, 6, 5, 4, 3, 2, 1]
     \<noteq> map channel_101 [0, 1, 2, 3, 4, 5, 6, 7, 8, 9, 10, 11, 12, 13, 14, 15, 16]"
proof -
  have same: "channel_less (channel_101 a) (channel_101 b) = False" for a b
    by (simp add: channel_less_def channel_101_def)
  have run: "libstdcxx_sort channel_less
     (map channel_101 [0, 1, 2, 3, 4, 5, 6, 7, 8, 9, 10, 11, 12, 13, 14, 15, 16])
     = Some (map channel_101 [8, 16, 15, 14, 13, 12, 11, 10, 9, 0, 7, 6, 5, 4, 3, 2, 1])"
    by (simp add: libstdcxx_sort_defs same Let_def)
  have out: "outputDataProducts (\<lambda>cmp ws. the (libstdcxx_sort cmp ws))
        (tool0\<lparr> fOpDetWaveformCollection :=
                  Some (map channel_101
                          [0, 1, 2, 3, 4, 5, 6, 7, 8, 9, 10, 11, 12, 13, 14, 15, 16]) \<rparr>)
     = Inr (map channel_101 [8, 16, 15, 14, 13, 12, 11, 10, 9, 0, 7, 6, 5, 4, 3, 2, 1],
            tool0\<lparr> fOpDetWaveformCollection := None \<rparr>)"
    unfolding outputDataProducts_def using run by simp
  have stable: "sort_key ChannelNumber
        (map channel_101 [0, 1, 2, 3, 4, 5, 6, 7, 8, 9, 10, 11, 12, 13, 14, 15, 16])
     = map channel_101 [0, 1, 2, 3, 4, 5, 6, 7, 8, 9, 10, 11, 12, 13, 14, 15, 16]"
    by (simp add: channel_101_def)
  have differ: "map channel_101 [8, 16, 15, 14, 13, 12, 11, 10, 9, 0, 7, 6, 5, 4, 3, 2, 1]
     \<noteq> map channel_101 [0, 1, 2, 3, 4, 5, 6, 7, 8, 9, 10, 11, 12, 13, 14, 15, 16]"
    by (simp add: channel_101_def)
  from run out stable differ show ?thesis by blast
qed

end
